theory Spec2Isabelle
  imports Complex_Main "HOL-Library.Log_Nat"
begin

section \<open>JavaScript strings\<close>

text \<open>
  The component under study is \<^verbatim>\<open>frontend/src/components/layout/AppLayout.tsx\<close>.
  JavaScript strings are modelled as HOL strings: a \<^typ>\<open>char\<close> stands for the code unit
  with the same number, so the model covers the code units U+0000 to U+00FF.
  In that range the white space of \<^verbatim>\<open>String.prototype.trim\<close> and of the regular
  expression class \<^verbatim>\<open>\s\<close> is TAB, LF, VT, FF, CR, SPACE and NO-BREAK SPACE.
\<close>

definition is_ws :: "char \<Rightarrow> bool" where
  "is_ws c = (c \<in> set [CHR 0x09, CHR 0x0A, CHR 0x0B, CHR 0x0C, CHR 0x0D, CHR 0x20, CHR 0xA0])"

definition trimStart :: "string \<Rightarrow> string" where
  "trimStart s = dropWhile is_ws s"

definition trimEnd :: "string \<Rightarrow> string" where
  "trimEnd s = rev (dropWhile is_ws (rev s))"

definition trim :: "string \<Rightarrow> string" where
  "trim s = trimEnd (trimStart s)"

definition startsWith :: "string \<Rightarrow> string \<Rightarrow> bool" where
  "startsWith s p = (take (length p) s = p)"

text \<open>\<^verbatim>\<open>s.indexOf(p)\<close>: the position of the first occurrence, \<open>None\<close> for \<^verbatim>\<open>-1\<close>.\<close>

fun indexOf :: "string \<Rightarrow> string \<Rightarrow> nat option" where
  "indexOf [] p = (if p = [] then Some 0 else None)"
| "indexOf (c # t) p =
     (if startsWith (c # t) p then Some 0 else map_option Suc (indexOf t p))"

definition includes_str :: "string \<Rightarrow> string \<Rightarrow> bool" where
  "includes_str s p = (indexOf s p \<noteq> None)"

text \<open>\<^verbatim>\<open>s.slice(i)\<close> for \<open>0 \<le> i\<close>.\<close>

definition slice :: "string \<Rightarrow> nat \<Rightarrow> string" where
  "slice s i = drop i s"

text \<open>\<^verbatim>\<open>s.replace(a, b)\<close> with a one-character string pattern: only the first
  occurrence is replaced.\<close>

fun replace_first :: "char \<Rightarrow> char \<Rightarrow> string \<Rightarrow> string" where
  "replace_first a b [] = []"
| "replace_first a b (c # s) = (if c = a then b # s else c # replace_first a b s)"

text \<open>\<^verbatim>\<open>s.split(c)\<close> for a one-character separator: the pieces between the separators,
  a single empty piece for the empty string.\<close>

fun split_on :: "char \<Rightarrow> string \<Rightarrow> string list" where
  "split_on sep [] = [[]]"
| "split_on sep (c # s) =
     (if c = sep then [] # split_on sep s
      else (case split_on sep s of [] \<Rightarrow> [[c]] | p # ps \<Rightarrow> (c # p) # ps))"

section \<open>The platform class URL\<close>

text \<open>
  \<^verbatim>\<open>new URL(s)\<close> and \<^verbatim>\<open>url.searchParams.get(name)\<close> belong to the platform, not to the
  repository. They are modelled after the WHATWG URL standard for absolute URLs with the
  scheme \<^verbatim>\<open>http\<close> or \<^verbatim>\<open>https\<close> written in lower case and no base URL:
  \<^item> leading and trailing C0 controls and spaces are stripped, TAB, LF and CR are removed;
  \<^item> after the scheme every slash and backslash is skipped; the authority runs up to the
    first slash, backslash, question mark or number sign; credentials end at the last
    commercial at;
  \<^item> the host ends at the first colon outside brackets; a bracketed host must be an
    IPv6 literal; any other host is percent-decoded, must be non-empty and free of
    forbidden domain code points, and must be a valid IPv4 address when its last part is
    a number; a port is a run of digits not above 65535;
  \<^item> the query runs from the first question mark to the first number sign;
  \<^item> \<^verbatim>\<open>searchParams\<close> splits the query at ampersands, skips empty pieces, splits each
    piece at its first equals sign, turns plus signs into spaces and decodes percent
    escapes; \<^verbatim>\<open>get\<close> returns the value of the first pair with the given name.

  \<open>None\<close> stands for the \<^verbatim>\<open>TypeError\<close> the constructor throws. Outside the model are:
  any other scheme (the model rejects it); a host with a character above U+007E, written
  directly or as a percent escape, which the platform converts with IDNA and the model
  rejects; a host label that starts with \<^verbatim>\<open>xn--\<close>, which the platform checks as Punycode
  and the model accepts; and the UTF-8 decoding of percent escapes above \<^verbatim>\<open>%7F\<close> in the
  query, where the model keeps the byte as one code unit. No result below evaluates the
  model on such an input.
\<close>

definition c0_control_or_space :: "char \<Rightarrow> bool" where
  "c0_control_or_space c = ((of_char c :: int) \<le> 0x20)"

definition ascii_tab_or_newline :: "char \<Rightarrow> bool" where
  "ascii_tab_or_newline c = (c \<in> set [CHR 0x09, CHR 0x0A, CHR 0x0D])"

definition url_preprocess :: "string \<Rightarrow> string" where
  "url_preprocess s =
     filter (\<lambda>c. \<not> ascii_tab_or_newline c)
       (rev (dropWhile c0_control_or_space (rev (dropWhile c0_control_or_space s))))"

definition is_slash :: "char \<Rightarrow> bool" where
  "is_slash c = (c = CHR ''/'' \<or> c = CHR 0x5C)"

definition authority_end :: "char \<Rightarrow> bool" where
  "authority_end c = (is_slash c \<or> c = CHR ''?'' \<or> c = CHR ''#'')"

definition forbidden_domain_code_point :: "char \<Rightarrow> bool" where
  "forbidden_domain_code_point c =
     ((of_char c :: int) \<le> 0x20 \<or> (of_char c :: int) \<ge> 0x7F \<or>
      c \<in> set [CHR ''#'', CHR ''/'', CHR '':'', CHR ''<'', CHR ''>'', CHR ''?'', CHR ''@'',
                CHR ''['', CHR 0x5C, CHR '']'', CHR ''^'', CHR ''|'', CHR ''%''])"

definition is_digit :: "char \<Rightarrow> bool" where
  "is_digit c = (c \<in> set ''0123456789'')"

definition digit_val :: "char \<Rightarrow> int" where
  "digit_val c = of_char c - of_char CHR ''0''"

definition decimal_val :: "string \<Rightarrow> int" where
  "decimal_val ds = foldl (\<lambda>n c. 10 * n + digit_val c) 0 ds"

definition hexval :: "char \<Rightarrow> int option" where
  "hexval c =
     (if is_digit c then Some (digit_val c)
      else if c \<in> set ''abcdef'' then Some (of_char c - of_char CHR ''a'' + 10)
      else if c \<in> set ''ABCDEF'' then Some (of_char c - of_char CHR ''A'' + 10)
      else None)"

fun percent_decode :: "string \<Rightarrow> string" where
  "percent_decode (c # h1 # h2 # r) =
     (if c = CHR ''%'' then
        (case (hexval h1, hexval h2) of
           (Some a, Some b) \<Rightarrow> char_of (16 * a + b) # percent_decode r
         | _ \<Rightarrow> c # percent_decode (h1 # h2 # r))
      else c # percent_decode (h1 # h2 # r))"
| "percent_decode s = s"

text \<open>
  One part of a dotted IPv4 host: hexadecimal after \<^verbatim>\<open>0x\<close>, octal after a leading zero,
  decimal otherwise; \<open>None\<close> when it is empty or has a digit that is not of its radix.
\<close>

definition radix_value :: "int \<Rightarrow> string \<Rightarrow> int option" where
  "radix_value radix ds =
     (if list_all (\<lambda>c. case hexval c of None \<Rightarrow> False | Some v \<Rightarrow> v < radix) ds
      then Some (foldl (\<lambda>n c. radix * n + (case hexval c of None \<Rightarrow> 0 | Some v \<Rightarrow> v)) 0 ds)
      else None)"

definition ipv4_number :: "string \<Rightarrow> int option" where
  "ipv4_number s =
     (if s = [] then None
      else if 2 \<le> length s \<and> (take 2 s = ''0x'' \<or> take 2 s = ''0X'') then radix_value 16 (drop 2 s)
      else if 2 \<le> length s \<and> hd s = CHR ''0'' then radix_value 8 (tl s)
      else radix_value 10 s)"

text \<open>The parts of a host between its dots, without one trailing empty part.\<close>

definition dotted_parts :: "string \<Rightarrow> string list" where
  "dotted_parts h =
     (let parts = split_on CHR ''.'' h
      in if last parts = [] \<and> 1 < length parts then butlast parts else parts)"

text \<open>A host whose last part is a number is read as an IPv4 address.\<close>

definition ends_in_number :: "string \<Rightarrow> bool" where
  "ends_in_number h =
     (let l = last (dotted_parts h)
      in (l \<noteq> [] \<and> list_all is_digit l) \<or> ipv4_number l \<noteq> None)"

definition ipv4_ok :: "string \<Rightarrow> bool" where
  "ipv4_ok h =
     (let parts = dotted_parts h
      in length parts \<le> 4 \<and>
         list_all (\<lambda>p. case ipv4_number p of None \<Rightarrow> False | Some n \<Rightarrow> n \<le> 255)
           (butlast parts) \<and>
         (case ipv4_number (last parts) of
            None \<Rightarrow> False
          | Some n \<Rightarrow> n < 256 ^ (5 - length parts)))"

text \<open>
  An IPv6 literal, the text between the brackets: pieces of one to four hexadecimal
  digits between colons, at most one \<^verbatim>\<open>::\<close> that stands for one or more zero pieces, and
  as the last piece possibly four decimal numbers up to 255 between dots, without
  leading zeros, which count as two pieces; eight pieces in all.
\<close>

definition hex_piece :: "string \<Rightarrow> bool" where
  "hex_piece p = (p \<noteq> [] \<and> length p \<le> 4 \<and> list_all (\<lambda>c. hexval c \<noteq> None) p)"

definition decimal_octet :: "string \<Rightarrow> bool" where
  "decimal_octet d =
     (d \<noteq> [] \<and> list_all is_digit d \<and> (if hd d = CHR ''0'' then length d = 1 else True) \<and>
      decimal_val d \<le> 255)"

definition dotted_quad :: "string \<Rightarrow> bool" where
  "dotted_quad q =
     (let parts = split_on CHR ''.'' q in length parts = 4 \<and> list_all decimal_octet parts)"

definition pieces :: "string \<Rightarrow> string list" where
  "pieces s = (if s = [] then [] else split_on CHR '':'' s)"

definition pieces_ok :: "bool \<Rightarrow> string list \<Rightarrow> bool" where
  "pieces_ok quad_allowed ps =
     (if ps = [] then True
      else list_all hex_piece (butlast ps) \<and>
           (hex_piece (last ps) \<or> (quad_allowed \<and> dotted_quad (last ps))))"

definition piece_count :: "string list \<Rightarrow> nat" where
  "piece_count ps =
     (if ps = [] then 0 else if CHR ''.'' \<in> set (last ps) then length ps + 1 else length ps)"

definition ipv6_ok :: "string \<Rightarrow> bool" where
  "ipv6_ok s =
     (case indexOf s ''::'' of
        None \<Rightarrow> pieces_ok True (pieces s) \<and> piece_count (pieces s) = 8
      | Some i \<Rightarrow>
          (let l = pieces (take i s); r = pieces (drop (i + 2) s)
           in pieces_ok False l \<and> pieces_ok True r \<and> piece_count l + piece_count r \<le> 7))"

text \<open>The host parser: a bracketed host is an IPv6 literal; any other host is
  percent-decoded, must be non-empty and free of forbidden domain code points, and is an
  IPv4 address when it ends in a number.\<close>

definition host_ok :: "string \<Rightarrow> bool" where
  "host_ok h =
     (if h \<noteq> [] \<and> hd h = CHR ''[''
      then last h = CHR '']'' \<and> ipv6_ok (butlast (tl h))
      else let d = percent_decode h
           in d \<noteq> [] \<and> \<not> list_ex forbidden_domain_code_point d \<and>
              (if ends_in_number d then ipv4_ok d else True))"

definition port_ok :: "string \<Rightarrow> bool" where
  "port_ok p =
     (p = [] \<or> (hd p = CHR '':'' \<and> list_all is_digit (tl p) \<and> decimal_val (tl p) \<le> 65535))"

text \<open>The host ends at the first colon outside brackets; the port follows it.\<close>

fun split_host_port :: "bool \<Rightarrow> string \<Rightarrow> string \<times> string" where
  "split_host_port inside [] = ([], [])"
| "split_host_port inside (c # s) =
     (if c = CHR '':'' \<and> \<not> inside then ([], c # s)
      else (case split_host_port
                   (if c = CHR ''['' then True else if c = CHR '']'' then False else inside) s of
              (h, p) \<Rightarrow> (c # h, p)))"

record URL =
  url_host :: string
  url_port :: string
  url_query :: string

text \<open>The part of the parser that follows \<^verbatim>\<open>http:\<close> or \<^verbatim>\<open>https:\<close>.\<close>

definition parse_special :: "string \<Rightarrow> URL option" where
  "parse_special rest =
     (let rest1 = dropWhile is_slash rest;
          auth = takeWhile (\<lambda>c. \<not> authority_end c) rest1;
          tail = dropWhile (\<lambda>c. \<not> authority_end c) rest1;
          hostport = rev (takeWhile (\<lambda>c. c \<noteq> CHR ''@'') (rev auth));
          h = fst (split_host_port False hostport);
          p = snd (split_host_port False hostport);
          after_path = dropWhile (\<lambda>c. c \<noteq> CHR ''?'' \<and> c \<noteq> CHR ''#'') tail;
          q = (case after_path of
                 [] \<Rightarrow> []
               | c # r \<Rightarrow> if c = CHR ''?'' then takeWhile (\<lambda>c. c \<noteq> CHR ''#'') r else [])
      in if host_ok h \<and> port_ok p
         then Some \<lparr>url_host = h, url_port = drop 1 p, url_query = q\<rparr>
         else None)"

definition URL_ctor :: "string \<Rightarrow> URL option" where
  "URL_ctor input =
     (let s = url_preprocess input
      in if startsWith s ''http:'' then parse_special (drop 5 s)
         else if startsWith s ''https:'' then parse_special (drop 6 s)
         else None)"

definition plus_to_space :: "char \<Rightarrow> char" where
  "plus_to_space c = (if c = CHR ''+'' then CHR '' '' else c)"

definition parse_pair :: "string \<Rightarrow> string \<times> string" where
  "parse_pair piece =
     (let name = takeWhile (\<lambda>c. c \<noteq> CHR ''='') piece;
          val = drop 1 (dropWhile (\<lambda>c. c \<noteq> CHR ''='') piece)
      in (percent_decode (map plus_to_space name), percent_decode (map plus_to_space val)))"

definition searchParams :: "URL \<Rightarrow> (string \<times> string) list" where
  "searchParams u = map parse_pair (filter (\<lambda>p. p \<noteq> []) (split_on CHR ''&'' (url_query u)))"

definition searchParams_get :: "URL \<Rightarrow> string \<Rightarrow> string option" where
  "searchParams_get u name = map_of (searchParams u) name"

section \<open>The link extractor\<close>

text \<open>The separators of the regular expression \<^verbatim>\<open>/[&#?\s]/\<close>.\<close>

definition is_separator :: "char \<Rightarrow> bool" where
  "is_separator c = (c = CHR ''&'' \<or> c = CHR ''#'' \<or> c = CHR ''?'' \<or> is_ws c)"

text \<open>\<^verbatim>\<open>extractTicketAddressFromInput\<close>; \<open>None\<close> is \<^verbatim>\<open>null\<close>. The \<^verbatim>\<open>catch\<close> around the
  constructor turns its exception into \<^verbatim>\<open>null\<close>; no other call of the function throws.\<close>

definition url_rule :: "string \<Rightarrow> string option" where
  "url_rule trimmed =
     (case URL_ctor trimmed of
        None \<Rightarrow> None
      | Some url \<Rightarrow>
          (case searchParams_get url ''ticket'' of
             None \<Rightarrow> None
           | Some ticketParam \<Rightarrow> if ticketParam = [] then None else Some (trim ticketParam)))"

definition substring_rule :: "string \<Rightarrow> string option" where
  "substring_rule trimmed =
     (case indexOf trimmed ''ticket='' of
        None \<Rightarrow> None
      | Some idx \<Rightarrow>
          (let after = slice trimmed (idx + length ''ticket='');
               ticketCandidate = takeWhile (\<lambda>c. \<not> is_separator c) after
           in if trim ticketCandidate = [] then None else Some (trim ticketCandidate)))"

definition extractTicketAddressFromInput :: "string \<Rightarrow> string option" where
  "extractTicketAddressFromInput raw =
     (let trimmed = trim raw
      in if trimmed = [] then None
         else if startsWith trimmed ''http://'' \<or> startsWith trimmed ''https://''
         then url_rule trimmed
         else if includes_str trimmed ''ticket='' then substring_rule trimmed
         else Some trimmed)"

section \<open>JavaScript numbers\<close>

text \<open>
  A Number is an IEEE 754 binary64 value. \<open>Num r\<close> is the finite value \<open>r\<close>, a rational
  that is a binary64 value; negative zero is identified with zero, which no handler of
  the component distinguishes. \<open>fl\<close> rounds an exact rational to the nearest binary64
  value, ties to even, with gradual underflow below \<open>pow2 (- 1022)\<close> and overflow to an
  infinity when the rounded value reaches \<open>pow2 1024\<close>: its exponent \<open>e\<close> is 1024 or
  more, or it is 1023 and the significand \<open>m\<close> has rounded up to \<open>2 ^ 53\<close>.
\<close>

datatype jsnum = NaN | PosInf | NegInf | Num rat

definition pow2 :: "int \<Rightarrow> rat" where
  "pow2 e = (if 0 \<le> e then 2 ^ nat e else 1 / 2 ^ nat (- e))"

definition pow10 :: "int \<Rightarrow> rat" where
  "pow10 e = (if 0 \<le> e then 10 ^ nat e else 1 / 10 ^ nat (- e))"

text \<open>For \<open>0 < x\<close>: the integer \<open>e\<close> with \<open>pow2 e \<le> x < pow2 (e + 1)\<close>.\<close>

definition ilog2 :: "rat \<Rightarrow> int" where
  "ilog2 x = (let (a, b) = quotient_of x; d = bitlen a - bitlen b
              in if pow2 d \<le> x then d else d - 1)"

definition round_half_even :: "rat \<Rightarrow> int" where
  "round_half_even y =
     (let f = \<lfloor>y\<rfloor>; d = y - of_int f
      in if d < 1 / 2 then f else if 1 / 2 < d then f + 1 else if even f then f else f + 1)"

definition fl :: "rat \<Rightarrow> jsnum" where
  "fl x =
     (if x = 0 then Num 0
      else let e = max (ilog2 \<bar>x\<bar>) (- 1022);
               u = pow2 (e - 52);
               m = round_half_even (\<bar>x\<bar> / u);
               r = of_int m * u
           in if 1024 \<le> e \<or> (e = 1023 \<and> 2 ^ 53 \<le> m)
              then (if 0 < x then PosInf else NegInf)
              else Num (sgn x * r))"

definition js_sign :: "jsnum \<Rightarrow> int" where
  "js_sign x = (case x of NaN \<Rightarrow> 0 | PosInf \<Rightarrow> 1 | NegInf \<Rightarrow> - 1
                | Num r \<Rightarrow> (if 0 < r then 1 else if r < 0 then - 1 else 0))"

text \<open>The operator \<^verbatim>\<open>*\<close> on Numbers.\<close>

definition js_mul :: "jsnum \<Rightarrow> jsnum \<Rightarrow> jsnum" where
  "js_mul x y =
     (case (x, y) of
        (NaN, _) \<Rightarrow> NaN
      | (_, NaN) \<Rightarrow> NaN
      | (Num a, Num b) \<Rightarrow> fl (a * b)
      | _ \<Rightarrow> (let s = js_sign x * js_sign y
              in if s = 0 then NaN else if 0 < s then PosInf else NegInf))"

text \<open>\<^verbatim>\<open>Math.round\<close> rounds halves towards positive infinity; \<^verbatim>\<open>Math.floor\<close> rounds down.
  Both results are binary64 values again.\<close>

definition Math_round :: "jsnum \<Rightarrow> jsnum" where
  "Math_round x = (case x of Num r \<Rightarrow> Num (of_int \<lfloor>r + 1 / 2\<rfloor>) | _ \<Rightarrow> x)"

definition Math_floor :: "jsnum \<Rightarrow> jsnum" where
  "Math_floor x = (case x of Num r \<Rightarrow> Num (of_int \<lfloor>r\<rfloor>) | _ \<Rightarrow> x)"

definition Number_isNaN :: "jsnum \<Rightarrow> bool" where
  "Number_isNaN x = (x = NaN)"

text \<open>The comparison \<^verbatim>\<open>x < 0\<close>.\<close>

definition js_lt0 :: "jsnum \<Rightarrow> bool" where
  "js_lt0 x = (case x of NaN \<Rightarrow> False | PosInf \<Rightarrow> False | NegInf \<Rightarrow> True | Num r \<Rightarrow> r < 0)"

text \<open>
  \<^verbatim>\<open>parseFloat\<close>: leading white space is skipped, the longest prefix that is a decimal
  literal (sign, digits, fraction, exponent, or \<^verbatim>\<open>Infinity\<close>) is read and rounded to
  binary64; the result is \<^verbatim>\<open>NaN\<close> when there is no such prefix.
\<close>

definition sign_split :: "string \<Rightarrow> bool \<times> string" where
  "sign_split s =
     (case s of
        [] \<Rightarrow> (False, [])
      | c # r \<Rightarrow> if c = CHR ''-'' then (True, r) else if c = CHR ''+'' then (False, r)
                 else (False, s))"

definition exponent_part :: "string \<Rightarrow> int" where
  "exponent_part s =
     (case s of
        [] \<Rightarrow> 0
      | c # r \<Rightarrow>
          if c = CHR ''e'' \<or> c = CHR ''E'' then
            (let (neg, r') = sign_split r; ds = takeWhile is_digit r'
             in if ds = [] then 0
                else if neg then - decimal_val ds else decimal_val ds)
          else 0)"

definition parseFloat :: "string \<Rightarrow> jsnum" where
  "parseFloat input =
     (let (neg, s) = sign_split (trimStart input)
      in if startsWith s ''Infinity'' then (if neg then NegInf else PosInf)
         else let ip = takeWhile is_digit s;
                  r1 = dropWhile is_digit s;
                  has_dot = (r1 \<noteq> [] \<and> hd r1 = CHR ''.'');
                  fp = (if has_dot then takeWhile is_digit (tl r1) else []);
                  r2 = (if has_dot then dropWhile is_digit (tl r1) else r1)
              in if ip = [] \<and> fp = [] then NaN
                 else let mv = of_int (decimal_val (ip @ fp))
                               * pow10 (exponent_part r2 - int (length fp))
                      in fl (if neg then - mv else mv))"

section \<open>Errors and the big-number constructor\<close>

text \<open>
  A thrown value, as \<^verbatim>\<open>handleError\<close> reads it: the fields \<^verbatim>\<open>message\<close>, \<^verbatim>\<open>logs\<close>,
  \<^verbatim>\<open>error.message\<close> and \<^verbatim>\<open>error.logs\<close>, each possibly absent.
\<close>

record js_error =
  message :: "string option"
  logs :: "string list option"
  error_message :: "string option"
  error_logs :: "string list option"

definition Error :: "string \<Rightarrow> js_error" where
  "Error msg = \<lparr>message = Some msg, logs = None, error_message = None, error_logs = None\<rparr>"

text \<open>
  \<^verbatim>\<open>Number.prototype.toString\<close> on a positive integral Number below \<open>10 ^ 21\<close> prints an
  integer: the fewest leading digits \<open>s\<close> such that \<open>s\<close> followed by zeros reads back as the
  Number, the closest such \<open>s\<close>, the even one on a tie. \<open>shortest_integer x j\<close> tries
  \<open>j + 1\<close> trailing zeros first, then fewer. Up to \<open>2 ^ 53\<close> the printed integer is the
  Number itself.
\<close>

definition decimal_length :: "rat \<Rightarrow> nat" where
  "decimal_length x = length (filter (\<lambda>n. 10 ^ n \<le> x) [0..<22])"

fun shortest_integer :: "rat \<Rightarrow> nat \<Rightarrow> int" where
  "shortest_integer x 0 = \<lfloor>x\<rfloor>"
| "shortest_integer x (Suc j) =
     (let scale = 10 ^ Suc j;
          lo = \<lfloor>x / of_int scale\<rfloor> * scale;
          hi = lo + scale;
          ok_lo = (fl (of_int lo) = Num x);
          ok_hi = (fl (of_int hi) = Num x)
      in if ok_lo \<and> ok_hi
         then (if x - of_int lo < of_int hi - x then lo
               else if of_int hi - x < x - of_int lo then hi
               else if even (lo div scale) then lo else hi)
         else if ok_lo then lo
         else if ok_hi then hi
         else shortest_integer x j)"

definition printed_integer :: "rat \<Rightarrow> int" where
  "printed_integer r =
     (if r = 0 then 0
      else if 0 < r then shortest_integer r (decimal_length r - 1)
      else - shortest_integer (- r) (decimal_length (- r) - 1))"

text \<open>
  \<^verbatim>\<open>new BN(x.toString())\<close> for a Number \<open>x\<close>, after bn.js 5: an integer below \<open>10 ^ 21\<close> in
  magnitude prints as decimal digits, which the constructor reads; every other Number
  prints with a character that is no digit (\<^verbatim>\<open>NaN\<close>, \<^verbatim>\<open>Infinity\<close>, a decimal point, an
  exponent) and the constructor throws.
\<close>

definition new_BN :: "jsnum \<Rightarrow> js_error + int" where
  "new_BN x =
     (case x of
        Num r \<Rightarrow> if r = of_int \<lfloor>r\<rfloor> \<and> \<bar>r\<bar> < 10 ^ 21 then Inr (printed_integer r)
                 else Inl (Error ''Invalid character'')
      | _ \<Rightarrow> Inl (Error ''Invalid character''))"

section \<open>Public keys and derived addresses\<close>

text \<open>
  A \<^verbatim>\<open>PublicKey\<close> is its 32 bytes; \<^verbatim>\<open>equals\<close> is equality of the bytes and \<^verbatim>\<open>toBytes\<close>
  the identity. The constructor from a string decodes base58 (leading \<^verbatim>\<open>1\<close>s are zero
  bytes, the rest is a number written with the fewest bytes) and throws unless the
  result has 32 bytes.
\<close>

type_synonym PublicKey = "int list"

definition base58_alphabet :: string where
  "base58_alphabet = ''123456789ABCDEFGHJKLMNPQRSTUVWXYZabcdefghijkmnopqrstuvwxyz''"

definition base58_char :: "char \<Rightarrow> bool" where
  "base58_char c = (c \<in> set base58_alphabet)"

fun index_in :: "char \<Rightarrow> string \<Rightarrow> int" where
  "index_in c [] = 0"
| "index_in c (d # ds) = (if c = d then 0 else 1 + index_in c ds)"

function bytes_be :: "int \<Rightarrow> int list" where
  "bytes_be n = (if n \<le> 0 then [] else bytes_be (n div 256) @ [n mod 256])"
  by pat_completeness auto
termination
  by (relation "measure nat") auto

definition bs58_decode :: "string \<Rightarrow> int list option" where
  "bs58_decode s =
     (let zeroes = takeWhile (\<lambda>c. c = CHR ''1'') s;
          rest = dropWhile (\<lambda>c. c = CHR ''1'') s
      in if list_all base58_char rest
         then Some (replicate (length zeroes) 0
                    @ bytes_be (foldl (\<lambda>n c. 58 * n + index_in c base58_alphabet) 0 rest))
         else None)"

definition PublicKey_ctor :: "string \<Rightarrow> js_error + PublicKey" where
  "PublicKey_ctor s =
     (case bs58_decode s of
        None \<Rightarrow> Inl (Error ''Non-base58 character'')
      | Some bs \<Rightarrow> if length bs \<noteq> 32 then Inl (Error ''Invalid public key input'') else Inr bs)"

text \<open>A valid identifier of the link extractor's round trip: a non-empty base58 string,
  which every address is.\<close>

definition valid_identifier :: "string \<Rightarrow> bool" where
  "valid_identifier s = (s \<noteq> [] \<and> list_all base58_char s)"

text \<open>Modelled from the spec: \<^verbatim>\<open>utf8\<close> and \<^verbatim>\<open>bnToLe8\<close> of \<^verbatim>\<open>solana/utils\<close>, which is not
  among the sources. The spec gives the tag as a fixed string and the numeric identifier
  as 8 little-endian bytes.\<close>

definition utf8 :: "string \<Rightarrow> int list" where
  "utf8 s = map of_char s"

definition bnToLe8 :: "int \<Rightarrow> int list" where
  "bnToLe8 n = map (\<lambda>i. (n div 256 ^ i) mod 256) [0..<8]"

section \<open>Client state, collaborators and observable calls\<close>

text \<open>
  The records of \<^verbatim>\<open>solana/types\<close> carry more fields; the component reads the address and
  the organizer of an event, the address of a ticket, and the owning event and the
  checked-in flag of a fetched ticket account.
\<close>

record EventAccount =
  pubkey :: PublicKey
  organizer :: PublicKey

record TicketAccount =
  ticket_pubkey :: PublicKey

record ticket_data =
  event :: PublicKey
  checkedIn :: bool

datatype MainTab = Explore | Tickets | Manage

datatype ManageTab = Create | Join | Withdraw

text \<open>The status banner. The source starts each message with a pictograph, which is the
  \<open>icon\<close> here; the ellipsis character of the source is written as three dots.\<close>

datatype icon = Cross | Hourglass | Check | Info

datatype status = Status icon string

text \<open>The \<^verbatim>\<open>useState\<close> cells of the component.\<close>

record ui_state =
  txStatus :: "status option"
  mainTab :: MainTab
  manageTab :: ManageTab
  selectedEvent :: "EventAccount option"
  deepLinkTicket :: "string option"
  deepLinkEventPubkey :: "PublicKey option"

definition initial_ui :: ui_state where
  "initial_ui = \<lparr>txStatus = None, mainTab = Explore, manageTab = Create,
                  selectedEvent = None, deepLinkTicket = None, deepLinkEventPubkey = None\<rparr>"

text \<open>
  The collaborators, as one run of a handler meets them: whether \<^verbatim>\<open>useProgram\<close> gave a
  handle, the wallet's key, the loaded events, the configuration constants, the clock,
  the fresh key of \<^verbatim>\<open>Keypair.generate\<close>, the address derivation of the key library, and
  the outcome of every asynchronous call, \<open>Inl\<close> for a rejected promise.
\<close>

record world =
  program :: bool
  wallet_publicKey :: "PublicKey option"
  events :: "EventAccount list"
  LAMPORTS_PER_SOL :: rat
  PROGRAM_ID :: PublicKey
  Date_now :: int
  Keypair_generate :: PublicKey
  findProgramAddressSync :: "int list list \<Rightarrow> PublicKey \<Rightarrow> PublicKey"
  ticket_fetch :: "PublicKey \<Rightarrow> js_error + ticket_data"
  getMinimumBalanceForRentExemption :: "js_error + int"
  getAssociatedTokenAddress :: "PublicKey \<Rightarrow> PublicKey \<Rightarrow> js_error + PublicKey"
  sendTransaction :: "js_error + string"
  initEvent_rpc :: "js_error + string"
  joinEvent_rpc :: "js_error + string"
  withdraw_rpc :: "js_error + string"
  checkIn_rpc :: "js_error + string"
  refreshEvents :: "js_error option"
  refreshTickets :: "js_error option"

text \<open>The size of a mint account, a constant of the token library.\<close>

definition MINT_SIZE :: int where
  "MINT_SIZE = 82"

datatype instruction =
    CreateAccount PublicKey PublicKey int int
  | InitializeMint PublicKey int PublicKey "PublicKey option"
  | CreateAssociatedTokenAccount PublicKey PublicKey PublicKey PublicKey

datatype console_level = Log | Warn | Err

text \<open>
  The calls a run makes on its collaborators, in order. The accounts that are library
  constants (the system, token and associated-token programs) are left out.
  \<open>ConfirmTransaction\<close> is the connection's call that waits for a signature to be
  confirmed.
\<close>

datatype call =
    InitEventRpc int int string string PublicKey PublicKey
  | SendTransaction "instruction list" "PublicKey list"
  | ConfirmTransaction string
  | JoinEventRpc PublicKey PublicKey PublicKey PublicKey PublicKey PublicKey
  | WithdrawRpc int PublicKey PublicKey
  | CheckInRpc PublicKey PublicKey PublicKey
  | TicketFetch PublicKey
  | GetMinimumBalanceForRentExemption int
  | GetAssociatedTokenAddress PublicKey PublicKey
  | RefreshEvents
  | RefreshTickets
  | Console console_level string

definition is_submission :: "call \<Rightarrow> bool" where
  "is_submission c =
     (case c of
        InitEventRpc _ _ _ _ _ _ \<Rightarrow> True
      | SendTransaction _ _ \<Rightarrow> True
      | JoinEventRpc _ _ _ _ _ _ \<Rightarrow> True
      | WithdrawRpc _ _ _ \<Rightarrow> True
      | CheckInRpc _ _ _ \<Rightarrow> True
      | _ \<Rightarrow> False)"

definition is_join :: "call \<Rightarrow> bool" where
  "is_join c = (case c of JoinEventRpc _ _ _ _ _ _ \<Rightarrow> True | _ \<Rightarrow> False)"

definition is_setup :: "call \<Rightarrow> bool" where
  "is_setup c = (case c of SendTransaction _ _ \<Rightarrow> True | _ \<Rightarrow> False)"

definition is_confirm :: "call \<Rightarrow> bool" where
  "is_confirm c = (case c of ConfirmTransaction _ \<Rightarrow> True | _ \<Rightarrow> False)"

text \<open>\<open>preceded P Q tr\<close>: every call of \<open>tr\<close> that satisfies \<open>Q\<close> comes after a call that
  satisfies \<open>P\<close>.\<close>

fun preceded :: "(call \<Rightarrow> bool) \<Rightarrow> (call \<Rightarrow> bool) \<Rightarrow> call list \<Rightarrow> bool" where
  "preceded P Q [] = True"
| "preceded P Q (c # cs) = (if P c then True else if Q c then False else preceded P Q cs)"

section \<open>The handlers\<close>

text \<open>A handler maps the collaborators, its arguments and the client state to the new
  client state and the calls it made. Each handler runs to its end without interleaving
  with another one.\<close>

definition handleError :: "js_error \<Rightarrow> ui_state \<Rightarrow> call list \<Rightarrow> ui_state \<times> call list" where
  "handleError e ui tr =
     (let lgs = (case logs e of Some l \<Rightarrow> Some l | None \<Rightarrow> error_logs e);
          baseMsg = (case error_message e of
                       Some m \<Rightarrow> m
                     | None \<Rightarrow> (case message e of Some m \<Rightarrow> m | None \<Rightarrow> ''Transaction failed''));
          hint = (if lgs \<noteq> None then '' (see console for program logs)'' else [])
      in (ui\<lparr>txStatus := Some (Status Cross (baseMsg @ hint))\<rparr>,
          tr @ [Console Err ''Raw error object:'']
             @ (if lgs \<noteq> None then [Console Err ''Program logs:''] else [])))"

definition generateEventIdBn :: "world \<Rightarrow> int" where
  "generateEventIdBn w = Date_now w"

definition deriveEventPdaFromSigner :: "world \<Rightarrow> PublicKey \<Rightarrow> int \<Rightarrow> PublicKey" where
  "deriveEventPdaFromSigner w signer eventId =
     findProgramAddressSync w [utf8 ''event'', signer, bnToLe8 eventId] (PROGRAM_ID w)"

text \<open>The address of the ticket, as \<^verbatim>\<open>handleJoinEvent\<close> derives it.\<close>

definition deriveTicketPda :: "world \<Rightarrow> PublicKey \<Rightarrow> PublicKey \<Rightarrow> PublicKey" where
  "deriveTicketPda w eventPda user =
     findProgramAddressSync w [utf8 ''ticket'', eventPda, user] (PROGRAM_ID w)"

text \<open>The price of \<^verbatim>\<open>handleCreateEvent\<close> in lamports; \<open>Inl\<close> is the error it throws.\<close>

definition priceLamports_of :: "rat \<Rightarrow> string \<Rightarrow> js_error + jsnum" where
  "priceLamports_of scale priceSol =
     (let normalized = replace_first CHR '','' CHR ''.'' (if priceSol = [] then ''0'' else priceSol);
          priceSolNum = parseFloat normalized
      in if Number_isNaN priceSolNum \<or> js_lt0 priceSolNum
         then Inl (Error ''Invalid ticket price'')
         else Inr (Math_round (js_mul priceSolNum (Num scale))))"

definition handleCreateEvent ::
  "world \<Rightarrow> string \<Rightarrow> string \<Rightarrow> string \<Rightarrow> ui_state \<Rightarrow> ui_state \<times> call list" where
  "handleCreateEvent w priceSol title description ui =
     (case wallet_publicKey w of
        None \<Rightarrow> (ui, [])
      | Some signer \<Rightarrow>
          if \<not> program w then (ui, [])
          else
            let ui1 = ui\<lparr>txStatus := Some (Status Hourglass ''Creating event on devnet...'')\<rparr>;
                eventIdBn = generateEventIdBn w
            in (case priceLamports_of (LAMPORTS_PER_SOL w) priceSol of
                 Inl e \<Rightarrow> handleError e ui1 []
               | Inr priceLamports \<Rightarrow>
                   (case new_BN priceLamports of
                      Inl e \<Rightarrow> handleError e ui1 []
                    | Inr priceLamportsBn \<Rightarrow>
                        let eventPda = deriveEventPdaFromSigner w signer eventIdBn;
                            tr = [InitEventRpc eventIdBn priceLamportsBn title description
                                    signer eventPda]
                        in (case initEvent_rpc w of
                             Inl e \<Rightarrow> handleError e ui1 tr
                           | Inr sig \<Rightarrow>
                               let ui2 = ui1\<lparr>txStatus :=
                                     Some (Status Check (''Event created. tx: '' @ sig))\<rparr>
                               in (case refreshEvents w of
                                    Some e \<Rightarrow> handleError e ui2 (tr @ [RefreshEvents])
                                  | None \<Rightarrow> (ui2, tr @ [RefreshEvents]))))))"

definition handleJoinEvent :: "world \<Rightarrow> string \<Rightarrow> ui_state \<Rightarrow> ui_state \<times> call list" where
  "handleJoinEvent w eventPubkeyStr ui =
     (case wallet_publicKey w of
        None \<Rightarrow> (ui, [])
      | Some user \<Rightarrow>
          if \<not> program w then (ui, [])
          else if eventPubkeyStr = []
          then (ui\<lparr>txStatus := Some (Status Cross ''Select an event to join'')\<rparr>, [])
          else
            let ui1 = ui\<lparr>txStatus := Some (Status Hourglass ''Preparing mint + joining event...'')\<rparr>
            in (case PublicKey_ctor eventPubkeyStr of
                 Inl e \<Rightarrow> handleError e ui1 []
               | Inr eventPubkey \<Rightarrow>
                   (case find (\<lambda>e. pubkey e = eventPubkey) (events w) of
                      None \<Rightarrow>
                        (ui1\<lparr>txStatus :=
                           Some (Status Cross ''Selected event not found in local list'')\<rparr>, [])
                    | Some eventData \<Rightarrow>
                        let eventPda = eventPubkey;
                            mint = Keypair_generate w;
                            mintAuthPda = findProgramAddressSync w [utf8 ''mint_auth'', mint]
                                            (PROGRAM_ID w);
                            tr1 = [GetMinimumBalanceForRentExemption MINT_SIZE]
                        in (case getMinimumBalanceForRentExemption w of
                             Inl e \<Rightarrow> handleError e ui1 tr1
                           | Inr lamportsForMint \<Rightarrow>
                               let createMintIx = CreateAccount user mint lamportsForMint MINT_SIZE;
                                   initMintIx = InitializeMint mint 0 mintAuthPda None;
                                   tr2 = tr1 @ [GetAssociatedTokenAddress mint user]
                               in (case getAssociatedTokenAddress w mint user of
                                    Inl e \<Rightarrow> handleError e ui1 tr2
                                  | Inr buyerAta \<Rightarrow>
                                      let createAtaIx =
                                            CreateAssociatedTokenAccount user buyerAta user mint;
                                          setupTx = [createMintIx, initMintIx, createAtaIx];
                                          tr3 = tr2 @ [SendTransaction setupTx [mint]]
                                      in (case sendTransaction w of
                                           Inl e \<Rightarrow> handleError e ui1 tr3
                                         | Inr setupSig \<Rightarrow>
                                             let tr4 = tr3 @ [Console Log ''Mint + ATA setup tx:''];
                                                 ui2 = ui1\<lparr>txStatus := Some (Status Hourglass
                                                   ''Calling join_event... This will also pay the ticket price.'')\<rparr>;
                                                 ticketPda = deriveTicketPda w eventPda user;
                                                 tr5 = tr4 @ [JoinEventRpc user eventPda ticketPda
                                                                mint mintAuthPda buyerAta]
                                             in (case joinEvent_rpc w of
                                                  Inl e \<Rightarrow> handleError e ui2 tr5
                                                | Inr sig \<Rightarrow>
                                                    let ui3 = ui2\<lparr>txStatus := Some (Status Check
                                                          (''Joined event & minted ticket. tx: '' @ sig))\<rparr>
                                                    in (case refreshTickets w of
                                                         Some e \<Rightarrow>
                                                           handleError e ui3 (tr5 @ [RefreshTickets])
                                                       | None \<Rightarrow> (ui3, tr5 @ [RefreshTickets])))))))))"

text \<open>The amount of \<^verbatim>\<open>handleWithdraw\<close> in lamports.\<close>

definition amountLamports_of :: "rat \<Rightarrow> string \<Rightarrow> jsnum" where
  "amountLamports_of scale amountSol =
     (let amountSolNum = parseFloat (if amountSol = [] then ''0'' else amountSol)
      in Math_floor (js_mul amountSolNum (Num scale)))"

definition handleWithdraw :: "world \<Rightarrow> string \<Rightarrow> string \<Rightarrow> ui_state \<Rightarrow> ui_state \<times> call list" where
  "handleWithdraw w eventPubkeyStr amountSol ui =
     (case wallet_publicKey w of
        None \<Rightarrow> (ui, [])
      | Some signer \<Rightarrow>
          if \<not> program w then (ui, [])
          else if eventPubkeyStr = []
          then (ui\<lparr>txStatus := Some (Status Cross ''Select an event to withdraw from'')\<rparr>, [])
          else
            let ui1 = ui\<lparr>txStatus := Some (Status Hourglass ''Sending withdraw...'')\<rparr>
            in (case PublicKey_ctor eventPubkeyStr of
                 Inl e \<Rightarrow> handleError e ui1 []
               | Inr eventPubkey \<Rightarrow>
                   (case new_BN (amountLamports_of (LAMPORTS_PER_SOL w) amountSol) of
                      Inl e \<Rightarrow> handleError e ui1 []
                    | Inr amountBn \<Rightarrow>
                        let tr = [WithdrawRpc amountBn signer eventPubkey]
                        in (case withdraw_rpc w of
                             Inl e \<Rightarrow> handleError e ui1 tr
                           | Inr sig \<Rightarrow>
                               (ui1\<lparr>txStatus := Some (Status Check (''withdraw tx: '' @ sig))\<rparr>,
                                tr)))))"

definition handleCheckIn ::
  "world \<Rightarrow> TicketAccount \<Rightarrow> EventAccount \<Rightarrow> ui_state \<Rightarrow> ui_state \<times> call list" where
  "handleCheckIn w ticket ev ui =
     (case wallet_publicKey w of
        None \<Rightarrow> (ui, [])
      | Some signer \<Rightarrow>
          if \<not> program w then (ui, [])
          else if organizer ev \<noteq> signer
          then (ui\<lparr>txStatus :=
                  Some (Status Cross ''Only the event organizer can check in attendees'')\<rparr>, [])
          else
            let ui1 = ui\<lparr>txStatus := Some (Status Hourglass ''Sending check_in...'')\<rparr>;
                eventPda = pubkey ev;
                tr = [CheckInRpc signer eventPda (ticket_pubkey ticket)]
            in (case checkIn_rpc w of
                 Inl e \<Rightarrow> handleError e ui1 tr
               | Inr sig \<Rightarrow>
                   let ui2 = ui1\<lparr>txStatus := Some (Status Check (''check_in tx: '' @ sig))\<rparr>
                   in (case refreshTickets w of
                        Some e \<Rightarrow> handleError e ui2 (tr @ [RefreshTickets])
                      | None \<Rightarrow> (ui2, tr @ [RefreshTickets]))))"

text \<open>What \<^verbatim>\<open>extractTicketAddressFromInput\<close> writes to the console: the warning of its
  \<^verbatim>\<open>catch\<close>, when the input has a scheme and the URL constructor throws.\<close>

definition extractor_warning :: "string \<Rightarrow> call list" where
  "extractor_warning raw =
     (let trimmed = trim raw
      in if trimmed = [] then []
         else if startsWith trimmed ''http://'' \<or> startsWith trimmed ''https://''
         then (case URL_ctor trimmed of
                 None \<Rightarrow> [Console Warn ''[checkin] Failed to parse URL from scanned value'']
               | Some url \<Rightarrow> [])
         else [])"

definition handleOrganizerCheckInByAddress ::
  "world \<Rightarrow> string \<Rightarrow> EventAccount \<Rightarrow> ui_state \<Rightarrow> ui_state \<times> call list" where
  "handleOrganizerCheckInByAddress w ticketAddress ev ui =
     (case wallet_publicKey w of
        None \<Rightarrow> (ui, [])
      | Some signer \<Rightarrow>
          if \<not> program w then (ui, [])
          else
            let warned = extractor_warning ticketAddress;
                not_found = (ui\<lparr>txStatus := Some (Status Cross
                               ''Could not find a ticket address in the scanned data'')\<rparr>,
                             warned)
            in (case extractTicketAddressFromInput ticketAddress of
                  None \<Rightarrow> not_found
                | Some extracted \<Rightarrow>
                    if extracted = [] then not_found
                    else if organizer ev \<noteq> signer
                    then (ui\<lparr>txStatus := Some (Status Cross
                               ''Only the event organizer can check in attendees'')\<rparr>, warned)
                    else
                      (case PublicKey_ctor extracted of
                         Inl e \<Rightarrow>
                           (ui\<lparr>txStatus := Some (Status Cross ''Invalid ticket public key'')\<rparr>,
                            warned)
                       | Inr ticketPubkey \<Rightarrow>
                           (case ticket_fetch w ticketPubkey of
                              Inl fetchErr \<Rightarrow>
                                (ui\<lparr>txStatus := Some (Status Cross
                                     ''That account is not a Ticket account for this program'')\<rparr>,
                                 warned @ [TicketFetch ticketPubkey,
                                           Console Err ''[checkin] Ticket fetch error''])
                            | Inr ticketAcc \<Rightarrow>
                                if event ticketAcc \<noteq> pubkey ev
                                then (ui\<lparr>txStatus := Some (Status Cross
                                           ''This ticket belongs to a different event'')\<rparr>,
                                      warned @ [TicketFetch ticketPubkey,
                                         Console Warn ''[checkin] Ticket belongs to different event''])
                                else if checkedIn ticketAcc
                                then (ui\<lparr>txStatus := Some (Status Info
                                           ''This ticket is already checked in'')\<rparr>,
                                      warned @ [TicketFetch ticketPubkey])
                                else
                                  let ui1 = ui\<lparr>txStatus :=
                                              Some (Status Hourglass ''Checking in attendee...'')\<rparr>;
                                      eventPda = pubkey ev;
                                      tr = warned @ [TicketFetch ticketPubkey,
                                                     CheckInRpc signer eventPda ticketPubkey]
                                  in (case checkIn_rpc w of
                                        Inl e \<Rightarrow> handleError e ui1 tr
                                      | Inr sig \<Rightarrow>
                                          let ui2 = ui1\<lparr>txStatus := Some (Status Check
                                                      (''Attendee checked in. tx: '' @ sig))\<rparr>
                                          in (case refreshTickets w of
                                                Some e \<Rightarrow> handleError e ui2 (tr @ [RefreshTickets])
                                              | None \<Rightarrow> (ui2, tr @ [RefreshTickets])))))))"

section \<open>The deep-link effects\<close>

text \<open>
  The three \<^verbatim>\<open>useEffect\<close> bodies. The first runs once when the component mounts, on the
  address of the page; the second runs whenever the program handle or the captured
  ticket changes; the third whenever the resolved event address or the events
  collection changes.
\<close>

definition effect_parse_url :: "string \<Rightarrow> ui_state \<Rightarrow> ui_state \<times> call list" where
  "effect_parse_url href ui =
     (case URL_ctor href of
        None \<Rightarrow> (ui, [Console Warn ''[checkin] Failed to parse ticket from URL''])
      | Some url \<Rightarrow>
          (case searchParams_get url ''ticket'' of
             None \<Rightarrow> (ui, [])
           | Some ticketParam \<Rightarrow>
               if ticketParam = [] then (ui, [])
               else (ui\<lparr>deepLinkTicket := Some (trim ticketParam), mainTab := Explore\<rparr>, [])))"

definition effect_fetch_ticket :: "world \<Rightarrow> ui_state \<Rightarrow> ui_state \<times> call list" where
  "effect_fetch_ticket w ui =
     (case deepLinkTicket ui of
        None \<Rightarrow> (ui, [])
      | Some ticket \<Rightarrow>
          if \<not> program w then (ui, [])
          else if ticket = [] then (ui, [])
          else
            let failed = ui\<lparr>txStatus :=
                              Some (Status Cross ''Invalid or unknown ticket in check-in link''),
                            deepLinkEventPubkey := None\<rparr>;
                msg = Console Err ''[checkin] Failed to fetch ticket account for deep link''
            in (case PublicKey_ctor ticket of
                  Inl e \<Rightarrow> (failed, [msg])
                | Inr ticketPubkey \<Rightarrow>
                    (case ticket_fetch w ticketPubkey of
                       Inl e \<Rightarrow> (failed, [TicketFetch ticketPubkey, msg])
                     | Inr ticketAcc \<Rightarrow>
                         (ui\<lparr>deepLinkEventPubkey := Some (event ticketAcc)\<rparr>,
                          [TicketFetch ticketPubkey]))))"

definition effect_select_event :: "world \<Rightarrow> ui_state \<Rightarrow> ui_state \<times> call list" where
  "effect_select_event w ui =
     (case deepLinkEventPubkey ui of
        None \<Rightarrow> (ui, [])
      | Some pk \<Rightarrow>
          if events w = [] then (ui, [])
          else (case find (\<lambda>ev. pubkey ev = pk) (events w) of
                  Some match \<Rightarrow> (ui\<lparr>selectedEvent := Some match, mainTab := Explore\<rparr>, [])
                | None \<Rightarrow>
                    (ui, [Console Warn
                            ''[checkin] Deep-linked ticket's event not found in loaded events''])))"

text \<open>The page load with the ticket fetch that follows it, then one run of the selection
  effect for each state of the events collection, in order.\<close>

definition deep_link_load :: "string \<Rightarrow> world \<Rightarrow> ui_state" where
  "deep_link_load href w = fst (effect_fetch_ticket w (fst (effect_parse_url href initial_ui)))"

fun select_runs :: "world list \<Rightarrow> ui_state \<Rightarrow> ui_state" where
  "select_runs [] ui = ui"
| "select_runs (w # ws) ui = select_runs ws (fst (effect_select_event w ui))"

section \<open>Sample collaborators\<close>

text \<open>
  Concrete data on which the results below are evaluated: the keys with 31 zero bytes and
  a last byte \<open>n\<close>, whose base58 form is 31 times \<^verbatim>\<open>1\<close> and one more digit; an organizer's
  wallet; one loaded event; one ticket of that event that is not checked in; and
  collaborators whose calls all succeed. The address derivation of the sample is a
  stand-in for the hash of the key library.
\<close>

definition sample_key :: "int \<Rightarrow> PublicKey" where
  "sample_key n = replicate 31 0 @ [n]"

definition wallet_address :: string where
  "wallet_address = ''11111111111111111111111111111112''"

definition event_address :: string where
  "event_address = ''11111111111111111111111111111113''"

definition ticket_address :: string where
  "ticket_address = ''11111111111111111111111111111114''"

definition sample_event :: EventAccount where
  "sample_event = \<lparr>pubkey = sample_key 2, organizer = sample_key 1\<rparr>"

definition other_event :: EventAccount where
  "other_event = \<lparr>pubkey = sample_key 4, organizer = sample_key 1\<rparr>"

definition sample_world :: world where
  "sample_world =
     \<lparr>program = True,
      wallet_publicKey = Some (sample_key 1),
      events = [sample_event],
      LAMPORTS_PER_SOL = 1000000000,
      PROGRAM_ID = sample_key 9,
      Date_now = 1730000000000,
      Keypair_generate = sample_key 7,
      findProgramAddressSync = (\<lambda>seeds programId. take 32 (concat seeds @ programId)),
      ticket_fetch = (\<lambda>pk. if pk = sample_key 3
                             then Inr \<lparr>event = sample_key 2, checkedIn = False\<rparr>
                             else Inl (Error ''Account does not exist'')),
      getMinimumBalanceForRentExemption = Inr 1461600,
      getAssociatedTokenAddress = (\<lambda>mint owner. Inr (sample_key 8)),
      sendTransaction = Inr ''setupSig'',
      initEvent_rpc = Inr ''sig'',
      joinEvent_rpc = Inr ''sig'',
      withdraw_rpc = Inr ''sig'',
      checkIn_rpc = Inr ''sig'',
      refreshEvents = None,
      refreshTickets = None\<rparr>"

text \<open>Variants of the sample: the setup transaction is rejected; the connected wallet is
  not the organizer; the ticket is already checked in; the ticket fetch fails; the events
  collection is not loaded yet; the events collection holds only another event.\<close>

definition rejecting_world :: world where
  "rejecting_world = sample_world\<lparr>sendTransaction := Inl (Error ''User rejected the request'')\<rparr>"

definition stranger_world :: world where
  "stranger_world = sample_world\<lparr>wallet_publicKey := Some (sample_key 5)\<rparr>"

definition checked_in_world :: world where
  "checked_in_world =
     sample_world\<lparr>ticket_fetch := (\<lambda>pk. Inr \<lparr>event = sample_key 2, checkedIn = True\<rparr>)\<rparr>"

definition failing_world :: world where
  "failing_world =
     sample_world\<lparr>ticket_fetch := (\<lambda>pk. Inl (Error ''failed to get info about account''))\<rparr>"

definition unloaded_world :: world where
  "unloaded_world = sample_world\<lparr>events := []\<rparr>"

definition other_world :: world where
  "other_world = sample_world\<lparr>events := [other_event]\<rparr>"

definition sample_href :: string where
  "sample_href = ''https://host/?ticket=11111111111111111111111111111114''"

section \<open>Facts about the sample collaborators\<close>

lemma PublicKey_ctor_empty: "PublicKey_ctor [] = Inl (Error ''Invalid public key input'')"
  by code_simp

lemma sample_world_simps:
  "program sample_world" "wallet_publicKey sample_world = Some (sample_key 1)"
  "events sample_world = [sample_event]" "LAMPORTS_PER_SOL sample_world = 1000000000"
  "PROGRAM_ID sample_world = sample_key 9" "Date_now sample_world = 1730000000000"
  "Keypair_generate sample_world = sample_key 7"
  "ticket_fetch sample_world pk = (if pk = sample_key 3
                             then Inr \<lparr>event = sample_key 2, checkedIn = False\<rparr>
                             else Inl (Error ''Account does not exist''))"
  "getMinimumBalanceForRentExemption sample_world = Inr 1461600"
  "getAssociatedTokenAddress sample_world m u = Inr (sample_key 8)"
  "sendTransaction sample_world = Inr ''setupSig''"
  "initEvent_rpc sample_world = Inr ''sig''" "joinEvent_rpc sample_world = Inr ''sig''"
  "withdraw_rpc sample_world = Inr ''sig''" "checkIn_rpc sample_world = Inr ''sig''"
  "refreshEvents sample_world = None" "refreshTickets sample_world = None"
  by (simp_all add: sample_world_def)

lemma sample_key_inject [simp]: "sample_key a = sample_key b \<longleftrightarrow> a = b"
  by (simp add: sample_key_def)

lemma sample_keys:
  "PublicKey_ctor wallet_address = Inr (sample_key 1)"
  "PublicKey_ctor event_address = Inr (sample_key 2)"
  "PublicKey_ctor ticket_address = Inr (sample_key 3)"
  "PublicKey_ctor ''not-a-valid-address'' = Inl (Error ''Non-base58 character'')"
  by code_simp+

lemma sample_addresses_nonempty:
  "wallet_address \<noteq> []" "event_address \<noteq> []" "ticket_address \<noteq> []"
  by (simp_all add: wallet_address_def event_address_def ticket_address_def)

lemma sample_extract:
  "extractTicketAddressFromInput ''not-a-valid-address'' = Some ''not-a-valid-address''"
  "extractTicketAddressFromInput ticket_address = Some ticket_address"
  "URL_ctor sample_href
   = Some \<lparr>url_host = ''host'', url_port = [],
            url_query = ''ticket=11111111111111111111111111111114''\<rparr>"
  "searchParams_get \<lparr>url_host = ''host'', url_port = [],
                     url_query = ''ticket=11111111111111111111111111111114''\<rparr> ''ticket''
   = Some ticket_address"
  "trim ticket_address = ticket_address"
  by code_simp+

lemma variant_worlds:
  "program stranger_world" "wallet_publicKey stranger_world = Some (sample_key 5)"
  "program checked_in_world" "wallet_publicKey checked_in_world = Some (sample_key 1)"
  "ticket_fetch checked_in_world pk = Inr \<lparr>event = sample_key 2, checkedIn = True\<rparr>"
  "program failing_world"
  "ticket_fetch failing_world pk = Inl (Error ''failed to get info about account'')"
  "events unloaded_world = []" "events other_world = [other_event]"
  "sendTransaction rejecting_world = Inl (Error ''User rejected the request'')"
  by (simp_all add: stranger_world_def checked_in_world_def failing_world_def
      unloaded_world_def other_world_def rejecting_world_def sample_world_def)


section \<open>Facts about the rounding to binary64\<close>

lemma pow2_powi: "pow2 e = 2 powi e"
  by (simp add: pow2_def power_int_def field_simps)

lemma pow2_pos: "0 < pow2 e"
  by (simp add: pow2_powi)

lemma pow2_add: "pow2 (a + b) = pow2 a * pow2 b"
  by (simp add: pow2_powi power_int_add)

lemma pow2_diff: "pow2 (a - b) = pow2 a / pow2 b"
  by (simp add: pow2_powi power_int_diff)

lemma pow2_mono: "a \<le> b \<Longrightarrow> pow2 a \<le> pow2 b"
  by (simp add: pow2_powi power_int_increasing)

lemma pow2_less_iff: "pow2 a < pow2 b \<longleftrightarrow> a < b"
  by (simp add: pow2_powi power_int_strict_increasing not_le [symmetric] power_int_increasing)
   (metis linorder_not_le one_less_numeral_iff order_less_imp_not_less power_int_increasing power_int_strict_increasing semiring_norm(76) verit_la_disequality)

lemma pow2_nat: "0 \<le> e \<Longrightarrow> pow2 e = 2 ^ nat e"
  by (simp add: pow2_def)

lemma bitlen_pow2_bounds:
  assumes "0 < a"
  shows "pow2 (bitlen a - 1) \<le> of_int a" "of_int a < pow2 (bitlen a)"
proof -
  have b: "2 ^ nat (bitlen a - 1) \<le> a" "a < 2 ^ nat (bitlen a)"
    using bitlen_bounds [OF assms] by auto
  have "1 \<le> bitlen a"
    using assms by (auto simp: bitlen_alt_def)
  then have "pow2 (bitlen a - 1) = of_int (2 ^ nat (bitlen a - 1))"
    "pow2 (bitlen a) = of_int (2 ^ nat (bitlen a))"
    by (simp_all add: pow2_nat)
  then show "pow2 (bitlen a - 1) \<le> of_int a" "of_int a < pow2 (bitlen a)"
    using b by (simp_all only: of_int_le_iff of_int_less_iff)
qed

lemma ilog2_bounds:
  assumes "0 < x"
  shows "pow2 (ilog2 x) \<le> x" "x < pow2 (ilog2 x + 1)"
proof -
  obtain a b where q: "quotient_of x = (a, b)"
    by (cases "quotient_of x")
  have bpos: "0 < b" using q by (rule quotient_of_denom_pos)
  have x: "x = of_int a / of_int b" using q by (rule quotient_of_div)
  have apos: "0 < a"
    using assms bpos unfolding x by (simp add: zero_less_divide_iff)
  let ?d = "bitlen a - bitlen b"
  have B: "0 < (of_int b :: rat)" using bpos by simp
  have up: "x < pow2 (?d + 1)"
  proof -
    have "x < pow2 (bitlen a) / of_int b"
      unfolding x using bitlen_pow2_bounds(2) [OF apos] B by (simp add: divide_strict_right_mono)
    also have "\<dots> \<le> pow2 (bitlen a) / pow2 (bitlen b - 1)"
      using bitlen_pow2_bounds(1) [OF bpos] pow2_pos [of "bitlen a"] pow2_pos [of "bitlen b - 1"]
      by (simp add: frac_le)
    also have "\<dots> = pow2 (?d + 1)"
      by (simp add: pow2_diff [symmetric] algebra_simps)
    finally show ?thesis .
  qed
  have lo: "pow2 (?d - 1) \<le> x"
  proof -
    have "pow2 (?d - 1) = pow2 (bitlen a - 1) / pow2 (bitlen b)"
      by (simp add: pow2_diff [symmetric] algebra_simps)
    also have "\<dots> \<le> of_int a / pow2 (bitlen b)"
      using bitlen_pow2_bounds(1) [OF apos] pow2_pos [of "bitlen b"]
      by (simp add: divide_right_mono)
    also have "\<dots> \<le> of_int a / of_int b"
      using bitlen_pow2_bounds(2) [OF bpos] apos B by (simp add: frac_le)
    finally show ?thesis by (simp add: x)
  qed
  have il: "ilog2 x = (if pow2 ?d \<le> x then ?d else ?d - 1)"
    by (simp add: ilog2_def q Let_def)
  show "pow2 (ilog2 x) \<le> x"
    using lo by (simp add: il)
  show "x < pow2 (ilog2 x + 1)"
    using up by (simp add: il)
qed


lemma round_half_even_of_int: "round_half_even (of_int k) = k"
  by (simp add: round_half_even_def)

lemma round_half_even_ge_floor: "\<lfloor>y\<rfloor> \<le> round_half_even y"
  by (simp add: round_half_even_def Let_def)

lemma fl_int_exact:
  assumes "0 < n" "n < 2 ^ 53"
  shows "fl (of_int n) = Num (of_int n)"
proof -
  let ?x = "of_int n :: rat"
  let ?e = "ilog2 ?x"
  have xpos: "0 < ?x" using assms(1) by simp
  have "pow2 0 \<le> ?x" using assms(1) by (simp add: pow2_def)
  then have "pow2 0 < pow2 (?e + 1)"
    using ilog2_bounds(2) [OF xpos] by simp
  then have e0: "0 \<le> ?e" by (simp add: pow2_less_iff)
  have "?x < pow2 53" using assms(2) by (simp add: pow2_def)
  then have "pow2 ?e < pow2 53"
    using ilog2_bounds(1) [OF xpos] by simp
  then have e52: "?e \<le> 52" by (simp add: pow2_less_iff)
  have abs: "\<bar>?x\<bar> = ?x" using xpos by simp
  have mx: "max ?e (- 1022) = ?e" using e0 by simp
  have u: "pow2 (?e - 52) = 1 / 2 ^ nat (52 - ?e)"
    using e52 by (cases "?e = 52") (simp_all add: pow2_def)
  have q: "?x / pow2 (?e - 52) = of_int (n * 2 ^ nat (52 - ?e))"
    by (simp add: u)
  have m: "round_half_even (?x / pow2 (?e - 52)) = n * 2 ^ nat (52 - ?e)"
    unfolding q by (rule round_half_even_of_int)
  have r: "of_int (n * 2 ^ nat (52 - ?e)) * pow2 (?e - 52) = ?x"
    by (simp add: u)
  have nz: "?x \<noteq> 0" using xpos by simp
  show ?thesis
    unfolding fl_def Let_def abs mx m r
    using nz xpos e52 by simp
qed

lemma fl_large:
  assumes "2 ^ 53 \<le> x" "fl x = Num r"
  shows "2 ^ 53 \<le> r"
proof -
  let ?e = "ilog2 x"
  have "(0 :: rat) < 2 ^ 53" by simp
  then have xpos: "0 < x" using assms(1) by linarith
  have "pow2 53 \<le> x" using assms(1) by (simp add: pow2_def)
  then have "pow2 53 < pow2 (?e + 1)"
    using ilog2_bounds(2) [OF xpos] by simp
  then have e53: "53 \<le> ?e" by (simp add: pow2_less_iff)
  have abs: "\<bar>x\<bar> = x" using xpos by simp
  have mx: "max ?e (- 1022) = ?e" using e53 by simp
  let ?u = "pow2 (?e - 52)"
  let ?m = "round_half_even (x / ?u)"
  have upos: "0 < ?u" by (rule pow2_pos)
  have "pow2 52 = pow2 ?e / ?u"
    by (simp add: pow2_diff [symmetric])
  also have "\<dots> \<le> x / ?u"
    using ilog2_bounds(1) [OF xpos] upos by (simp add: divide_right_mono)
  finally have "of_int (2 ^ 52) \<le> x / ?u"
    by (simp add: pow2_def)
  then have "2 ^ 52 \<le> \<lfloor>x / ?u\<rfloor>"
    by (simp only: le_floor_iff)
  then have m52: "2 ^ 52 \<le> ?m"
    using round_half_even_ge_floor [of "x / ?u"] by linarith
  have "pow2 53 \<le> pow2 ?e" using e53 by (rule pow2_mono)
  also have "pow2 ?e = pow2 52 * ?u"
    by (simp add: pow2_add [symmetric])
  also have "\<dots> \<le> of_int ?m * ?u"
    using m52 upos by (simp add: pow2_def mult_right_mono)
  finally have big: "pow2 53 \<le> of_int ?m * ?u" .
  have nz: "x \<noteq> 0" using xpos by simp
  have "r = of_int ?m * ?u"
    using assms(2) nz xpos unfolding fl_def Let_def abs mx
    by (auto split: if_splits)
  then show ?thesis using big by (simp add: pow2_def)
qed

lemma fl_zero: "fl 0 = Num 0"
  by (simp add: fl_def)

lemma shortest_integer_safe:
  assumes "0 < n" "n < 2 ^ 53"
  shows "shortest_integer (of_int n) j = n"
proof (induction j)
  case 0
  show ?case by simp
next
  case (Suc j)
  let ?scale = "10 ^ Suc j :: int"
  let ?lo = "\<lfloor>(of_int n :: rat) / of_int ?scale\<rfloor> * ?scale"
  let ?hi = "?lo + ?scale"
  have spos: "0 < ?scale" by simp
  have lo: "?lo = (n div ?scale) * ?scale"
    by (simp only: floor_divide_of_int_eq)
  have split: "n = (n div ?scale) * ?scale + n mod ?scale"
    by (rule div_mult_mod_eq [symmetric])
  have "0 \<le> n mod ?scale" using spos by (rule pos_mod_sign)
  then have lo_le1: "?lo \<le> n" unfolding lo using split by linarith
  have "0 \<le> n div ?scale"
    using assms(1) spos by (simp add: pos_imp_zdiv_nonneg_iff)
  then have lo_le2: "0 \<le> ?lo" unfolding lo using spos by simp
  note lo_le = lo_le1 lo_le2
  have hi_gt: "n < ?hi"
  proof -
    have "n mod ?scale < ?scale" using spos by (rule pos_mod_bound)
    then show ?thesis unfolding lo using split by linarith
  qed
  have ok_lo: "fl (of_int ?lo) = Num (of_int n) \<longleftrightarrow> ?lo = n"
  proof (cases "?lo = 0")
    case True
    then show ?thesis using assms(1) by (simp only: of_int_0 fl_zero) simp
  next
    case False
    then have "0 < ?lo" using lo_le(2) by linarith
    moreover have "?lo < 2 ^ 53" using lo_le(1) assms(2) by linarith
    ultimately have "fl (of_int ?lo) = Num (of_int ?lo)" by (rule fl_int_exact)
    then show ?thesis by (simp only: jsnum.inject of_int_eq_iff)
  qed
  have ok_hi: "fl (of_int ?hi) \<noteq> Num (of_int n)"
  proof (cases "?hi < 2 ^ 53")
    case True
    have "0 < ?hi" using hi_gt assms(1) by linarith
    then have "fl (of_int ?hi) = Num (of_int ?hi)" using True by (rule fl_int_exact)
    then show ?thesis using hi_gt by (simp only: jsnum.inject of_int_eq_iff)
  next
    case False
    then have big: "(2 :: rat) ^ 53 \<le> of_int ?hi"
      by (metis linorder_not_less of_int_le_iff of_int_numeral of_int_power)
    show ?thesis
    proof
      assume "fl (of_int ?hi) = Num (of_int n)"
      from fl_large [OF big this] have "(2 :: rat) ^ 53 \<le> of_int n" .
      then have "2 ^ 53 \<le> n"
        by (metis of_int_le_iff of_int_numeral of_int_power)
      then show False using assms(2) by simp
    qed
  qed
  show ?case
  proof (cases "?lo = n")
    case True
    then show ?thesis
      using ok_lo ok_hi by (simp only: shortest_integer.simps Let_def) simp
  next
    case False
    then show ?thesis
      using ok_lo ok_hi Suc.IH by (simp only: shortest_integer.simps Let_def) simp
  qed
qed

lemma printed_integer_safe:
  assumes "\<bar>n\<bar> < 2 ^ 53"
  shows "printed_integer (of_int n) = n"
proof -
  consider "n = 0" | "0 < n" | "n < 0" by linarith
  then show ?thesis
  proof cases
    case 1
    then show ?thesis by (simp add: printed_integer_def)
  next
    case 2
    then have "shortest_integer (of_int n) (decimal_length (of_int n) - 1) = n"
      using assms by (intro shortest_integer_safe) simp_all
    then show ?thesis using 2 by (simp add: printed_integer_def)
  next
    case 3
    then have "shortest_integer (of_int (- n)) (decimal_length (of_int (- n)) - 1) = - n"
      using assms by (intro shortest_integer_safe) simp_all
    then show ?thesis using 3 by (simp add: printed_integer_def)
  qed
qed

lemma new_BN_safe:
  assumes "\<bar>n\<bar> < 2 ^ 53"
  shows "new_BN (Num (of_int n)) = Inr n"
proof -
  have "\<bar>n\<bar> < 10 ^ 21" using assms by simp
  then have "\<bar>of_int n :: rat\<bar> < 10 ^ 21"
    by (metis of_int_abs of_int_less_iff of_int_numeral of_int_power)
  then show ?thesis
    by (simp add: new_BN_def printed_integer_safe [OF assms])
qed

lemma new_BN_printed:
  assumes "\<bar>of_int n :: rat\<bar> < 10 ^ 21"
  shows "new_BN (Num (of_int n)) = Inr (printed_integer (of_int n))"
  using assms by (simp add: new_BN_def)

lemma new_BN_too_large:
  assumes "10 ^ 21 \<le> \<bar>of_int n :: rat\<bar>"
  shows "new_BN (Num (of_int n)) = Inl (Error ''Invalid character'')"
  using assms by (simp add: new_BN_def)

section \<open>Results on the link extractor\<close>

lemma base58_char_plain:
  assumes "base58_char c"
  shows "\<not> is_ws c" "\<not> c0_control_or_space c" "\<not> ascii_tab_or_newline c"
    "\<not> is_separator c" "c \<noteq> CHR ''#''" "c \<noteq> CHR ''&''" "c \<noteq> CHR ''=''"
    "c \<noteq> CHR ''%''" "plus_to_space c = c"
  using assms
  by (auto simp: base58_char_def base58_alphabet_def is_ws_def c0_control_or_space_def
      ascii_tab_or_newline_def is_separator_def plus_to_space_def)

lemma trimEnd_append:
  "p \<noteq> [] \<Longrightarrow> \<not> is_ws (last p) \<Longrightarrow> trimEnd (r @ p) = r @ p"
  by (cases p rule: rev_cases) (simp_all add: trimEnd_def)

lemma trim_id:
  "s \<noteq> [] \<Longrightarrow> \<not> is_ws (hd s) \<Longrightarrow> \<not> is_ws (last s) \<Longrightarrow> trim s = s"
  using trimEnd_append [of s "[]"] by (cases s) (simp_all add: trim_def trimStart_def)

lemma percent_decode_id: "CHR ''%'' \<notin> set s \<Longrightarrow> percent_decode s = s"
  by (induction s rule: percent_decode.induct) auto

lemma split_on_single: "sep \<notin> set s \<Longrightarrow> split_on sep s = [s]"
  by (induction s) auto

lemma valid_identifier_set:
  "valid_identifier s \<Longrightarrow> c \<in> set s \<Longrightarrow> base58_char c"
  by (simp add: valid_identifier_def list_all_iff)

lemma id_facts:
  assumes "valid_identifier s"
  shows "filter (\<lambda>c. \<not> ascii_tab_or_newline c) s = s"
    and "takeWhile (\<lambda>c. c \<noteq> CHR ''#'') s = s"
    and "CHR ''&'' \<notin> set s" and "CHR ''%'' \<notin> set s"
    and "map plus_to_space s = s"
    and "takeWhile (\<lambda>c. \<not> is_separator c) (s @ CHR '' '' # r) = s"
    and "s \<noteq> []" and "\<not> is_ws (hd s)" and "\<not> is_ws (last s)"
    and "\<not> c0_control_or_space (last s)"
proof -
  have all: "\<And>c. c \<in> set s \<Longrightarrow> base58_char c"
    using assms by (rule valid_identifier_set)
  show "filter (\<lambda>c. \<not> ascii_tab_or_newline c) s = s"
    using all by (simp add: base58_char_plain filter_id_conv)
  show "takeWhile (\<lambda>c. c \<noteq> CHR ''#'') s = s"
    using all by (simp add: takeWhile_eq_all_conv base58_char_plain)
  show "CHR ''&'' \<notin> set s" using all base58_char_plain(6) by blast
  show "CHR ''%'' \<notin> set s" using all base58_char_plain(8) by blast
  show "map plus_to_space s = s"
    using all by (simp add: map_idI base58_char_plain)
  have "takeWhile (\<lambda>c. \<not> is_separator c) (s @ CHR '' '' # r) = s @ takeWhile (\<lambda>c. \<not> is_separator c) (CHR '' '' # r)"
    using all by (simp add: takeWhile_append2 base58_char_plain)
  then show "takeWhile (\<lambda>c. \<not> is_separator c) (s @ CHR '' '' # r) = s"
    by (simp add: is_separator_def is_ws_def)
  show ne: "s \<noteq> []" using assms by (simp add: valid_identifier_def)
  show "\<not> is_ws (hd s)" using all ne by (simp add: base58_char_plain)
  show "\<not> is_ws (last s)" using all ne by (simp add: base58_char_plain)
  show "\<not> c0_control_or_space (last s)" using all ne by (simp add: base58_char_plain)
qed

lemma url_preprocess_id:
  assumes "valid_identifier s"
  shows "url_preprocess (''https://host/path?ticket='' @ s) = ''https://host/path?ticket='' @ s"
proof -
  have "rev (dropWhile c0_control_or_space (rev (''https://host/path?ticket='' @ s)))
        = ''https://host/path?ticket='' @ s"
    using id_facts(7,10) [OF assms] by (cases s rule: rev_cases) simp_all
  then show ?thesis
    using id_facts(1) [OF assms]
    by (simp add: url_preprocess_def c0_control_or_space_def ascii_tab_or_newline_def)
qed

lemma host_ok_host: "host_ok ''host''"
  by code_simp

lemma URL_ctor_ticket:
  assumes "valid_identifier s"
  shows "URL_ctor (''https://host/path?ticket='' @ s)
         = Some \<lparr>url_host = ''host'', url_port = [], url_query = ''ticket='' @ s\<rparr>"
  unfolding URL_ctor_def url_preprocess_id [OF assms]
  using id_facts(2) [OF assms]
  by (simp add: startsWith_def parse_special_def
      is_slash_def authority_end_def host_ok_host port_ok_def)

lemma searchParams_get_ticket:
  assumes "valid_identifier s"
  shows "searchParams_get \<lparr>url_host = h, url_port = p, url_query = ''ticket='' @ s\<rparr> ''ticket''
         = Some s"
proof -
  have "CHR ''&'' \<notin> set (''ticket='' @ s)"
    using id_facts(3) [OF assms] by simp
  then have "split_on CHR ''&'' (''ticket='' @ s) = [''ticket='' @ s]"
    by (rule split_on_single)
  then show ?thesis
    using id_facts(4,5) [OF assms]
    by (simp add: searchParams_get_def searchParams_def parse_pair_def plus_to_space_def
        percent_decode_id)
qed

lemma extract_url_ticket:
  assumes "valid_identifier s"
  shows "extractTicketAddressFromInput (''https://host/path?ticket='' @ s) = Some s"
proof -
  let ?u = "''https://host/path?ticket='' @ s"
  have t: "trim ?u = ?u"
    using id_facts(7,9) [OF assms] by (intro trim_id) (simp_all add: is_ws_def)
  have "url_rule ?u = Some s"
    unfolding url_rule_def URL_ctor_ticket [OF assms] option.case
      searchParams_get_ticket [OF assms]
    using id_facts(7,8,9) [OF assms] by (simp add: trim_id)
  moreover have "extractTicketAddressFromInput ?u = url_rule ?u"
    unfolding extractTicketAddressFromInput_def t Let_def by (simp add: startsWith_def)
  ultimately show ?thesis by (simp only:)
qed

lemma extract_embedded_ticket:
  assumes "valid_identifier s"
  shows "extractTicketAddressFromInput (''prefix ticket='' @ s @ '' suffix'') = Some s"
proof -
  let ?u = "''prefix ticket='' @ s @ '' suffix''"
  have t: "trim ?u = ?u"
    by (intro trim_id) (simp_all add: is_ws_def)
  have i: "indexOf ?u ''ticket='' = Some 7"
    by (simp add: startsWith_def)
  have "substring_rule ?u = Some s"
    unfolding substring_rule_def i option.case
    using id_facts(6,7,8,9) [OF assms]
    by (simp add: slice_def trim_id)
  moreover have "extractTicketAddressFromInput ?u = substring_rule ?u"
    unfolding extractTicketAddressFromInput_def t Let_def includes_str_def i
    by (simp add: startsWith_def)
  ultimately show ?thesis by (simp only:)
qed

lemma extract_raw_identifier:
  assumes "valid_identifier s"
    and "\<not> startsWith s ''http://''" and "\<not> startsWith s ''https://''"
    and "\<not> includes_str s ''ticket=''"
  shows "extractTicketAddressFromInput s = Some s"
  using assms id_facts(7,8,9) [OF assms(1)]
  by (simp add: extractTicketAddressFromInput_def trim_id)

lemma trim_keeps_scheme:
  assumes "startsWith raw p" and "p \<noteq> []" and "\<not> is_ws (hd p)" and "\<not> is_ws (last p)"
  shows "startsWith (trim raw) p \<and> trim raw \<noteq> []"
proof -
  obtain r where raw: "raw = p @ r"
    using assms(1) by (metis append_take_drop_id startsWith_def)
  have "trimStart raw = raw"
    using assms(2,3) by (cases p) (simp_all add: raw trimStart_def)
  moreover have "trimEnd (p @ r) = p @ trimEnd r"
    using assms(2,4)
    by (cases p rule: rev_cases) (auto simp: trimEnd_def dropWhile_append)
  ultimately have "trim raw = p @ trimEnd r"
    by (simp add: trim_def raw)
  then show ?thesis using assms(2) by (simp add: startsWith_def)
qed

lemma extract_scheme_url_rule:
  assumes "startsWith raw ''http://'' \<or> startsWith raw ''https://''"
  shows "extractTicketAddressFromInput raw = url_rule (trim raw)"
proof -
  have "(startsWith (trim raw) ''http://'' \<or> startsWith (trim raw) ''https://'')
        \<and> trim raw \<noteq> []"
    using assms trim_keeps_scheme [of raw "''http://''"] trim_keeps_scheme [of raw "''https://''"]
    by (auto simp: is_ws_def)
  then show ?thesis
    by (auto simp add: extractTicketAddressFromInput_def Let_def)
qed


text \<open>
  Claim C2. The extractor follows its four rules, the first that applies winning. For
  every valid identifier it recovers the identifier from a link whose query carries it
  as the ticket parameter, from text that embeds \<^verbatim>\<open>ticket=\<close> followed by it, and from the
  identifier alone when that has no scheme and no \<^verbatim>\<open>ticket=\<close>. The empty string, blank
  input and a link without the parameter give \<^verbatim>\<open>null\<close>. Input that begins with
  \<^verbatim>\<open>http://\<close> or \<^verbatim>\<open>https://\<close> is always answered by the URL rule, also when its path contains
  \<^verbatim>\<open>ticket=\<close>, and when the URL constructor throws the answer is \<^verbatim>\<open>null\<close>.
\<close>

theorem extractor_four_rules:
  "(valid_identifier ident \<longrightarrow>
      extractTicketAddressFromInput (''https://host/path?ticket='' @ ident) = Some ident \<and>
      extractTicketAddressFromInput (''prefix ticket='' @ ident @ '' suffix'') = Some ident \<and>
      (\<not> startsWith ident ''http://'' \<and> \<not> startsWith ident ''https://'' \<and>
       \<not> includes_str ident ''ticket='' \<longrightarrow>
         extractTicketAddressFromInput ident = Some ident)) \<and>
   extractTicketAddressFromInput [] = None \<and>
   extractTicketAddressFromInput ''   '' = None \<and>
   extractTicketAddressFromInput ''https://host/path?other=1'' = None \<and>
   (startsWith raw ''http://'' \<or> startsWith raw ''https://'' \<longrightarrow>
      extractTicketAddressFromInput raw = url_rule (trim raw) \<and>
      (URL_ctor (trim raw) = None \<longrightarrow> extractTicketAddressFromInput raw = None)) \<and>
   extractTicketAddressFromInput ''https://host/ticket=abc/path'' = None \<and>
   substring_rule ''https://host/ticket=abc/path'' = Some ''abc/path''"
proof -
  have neg1: "extractTicketAddressFromInput [] = None"
    by (simp add: extractTicketAddressFromInput_def trim_def trimStart_def trimEnd_def)
  have neg2: "extractTicketAddressFromInput ''   '' = None"
    by code_simp
  have neg3: "extractTicketAddressFromInput ''https://host/path?other=1'' = None"
    by code_simp
  have path1: "extractTicketAddressFromInput ''https://host/ticket=abc/path'' = None"
    by code_simp
  have path2: "substring_rule ''https://host/ticket=abc/path'' = Some ''abc/path''"
    by code_simp
  have malformed: "extractTicketAddressFromInput raw = None"
    if "startsWith raw ''http://'' \<or> startsWith raw ''https://''" "URL_ctor (trim raw) = None"
    using that by (simp add: extract_scheme_url_rule url_rule_def)
  show ?thesis
    using extract_url_ticket [of ident] extract_embedded_ticket [of ident]
      extract_raw_identifier [of ident] extract_scheme_url_rule [of raw] malformed
      neg1 neg2 neg3 path1 path2
    by blast
qed

theorem extractor_four_rules_witness:
  "valid_identifier ''11111111111111111111111111111112'' \<and>
   \<not> startsWith ''11111111111111111111111111111112'' ''http://'' \<and>
   \<not> startsWith ''11111111111111111111111111111112'' ''https://'' \<and>
   \<not> includes_str ''11111111111111111111111111111112'' ''ticket='' \<and>
   extractTicketAddressFromInput ''https://host/path?ticket=11111111111111111111111111111112''
     = Some ''11111111111111111111111111111112'' \<and>
   extractTicketAddressFromInput ''prefix ticket=11111111111111111111111111111112 suffix''
     = Some ''11111111111111111111111111111112'' \<and>
   extractTicketAddressFromInput ''11111111111111111111111111111112''
     = Some ''11111111111111111111111111111112'' \<and>
   startsWith ''https://'' ''https://'' \<and>
   URL_ctor (trim ''https://'') = None \<and>
   extractTicketAddressFromInput ''https://'' = None"
proof -
  have h: "valid_identifier ''11111111111111111111111111111112''"
    "\<not> startsWith ''11111111111111111111111111111112'' ''http://''"
    "\<not> startsWith ''11111111111111111111111111111112'' ''https://''"
    "\<not> includes_str ''11111111111111111111111111111112'' ''ticket=''"
    "startsWith ''https://'' ''https://''"
    "URL_ctor (trim ''https://'') = None"
    by code_simp+
  show ?thesis
    using extractor_four_rules [of "''11111111111111111111111111111112''" "''https://''"] h
    by (simp add: url_rule_def)
qed

section \<open>Results on the amounts\<close>

lemma parseFloat_samples:
  "parseFloat ''-1'' = Num (- 1)"
  "parseFloat ''abc'' = NaN"
  "parseFloat ''1.5'' = Num (3 / 2)"
  "parseFloat ''1,5'' = Num 1"
  "parseFloat ''0'' = Num 0"
  by code_simp+

lemma replace_samples:
  "replace_first CHR '','' CHR ''.'' ''1,5'' = ''1.5''"
  "replace_first CHR '','' CHR ''.'' ''1.5'' = ''1.5''"
  "replace_first CHR '','' CHR ''.'' ''-1'' = ''-1''"
  "replace_first CHR '','' CHR ''.'' ''abc'' = ''abc''"
  by simp_all

lemma price_rejected:
  "priceLamports_of scale ''-1'' = Inl (Error ''Invalid ticket price'')"
  "priceLamports_of scale ''abc'' = Inl (Error ''Invalid ticket price'')"
  unfolding priceLamports_of_def
  by (simp_all add: parseFloat_samples Number_isNaN_def js_lt0_def del: replace_first.simps
      add: replace_samples)

lemma price_accepted:
  "priceLamports_of scale ''1,5'' = Inr (Math_round (js_mul (Num (3 / 2)) (Num scale)))"
  "priceLamports_of scale ''1.5'' = Inr (Math_round (js_mul (Num (3 / 2)) (Num scale)))"
  unfolding priceLamports_of_def
  by (simp_all add: parseFloat_samples Number_isNaN_def js_lt0_def del: replace_first.simps
      add: replace_samples)

lemma price_sample:
  "Math_round (js_mul (Num (3 / 2)) (Num 1000000000)) = Num 1500000000"
  "new_BN (Num 1500000000) = Inr 1500000000"
  by code_simp+

lemma handleError_Error:
  "handleError (Error m) ui tr
   = (ui\<lparr>txStatus := Some (Status Cross m)\<rparr>, tr @ [Console Err ''Raw error object:''])"
  by (simp add: handleError_def Error_def)

lemma create_rejected:
  assumes "program w" "wallet_publicKey w = Some signer"
    "priceLamports_of (LAMPORTS_PER_SOL w) p = Inl (Error m)"
  shows "handleCreateEvent w p t d ui
         = (ui\<lparr>txStatus := Some (Status Cross m)\<rparr>, [Console Err ''Raw error object:''])"
  using assms by (simp add: handleCreateEvent_def handleError_Error)

lemma create_same_price:
  assumes "priceLamports_of (LAMPORTS_PER_SOL w) p = priceLamports_of (LAMPORTS_PER_SOL w) q"
  shows "handleCreateEvent w p t d ui = handleCreateEvent w q t d ui"
  by (simp only: handleCreateEvent_def assms)

lemma withdraw_floor:
  "amountLamports_of scale s
   = Math_floor (js_mul (parseFloat (if s = [] then ''0'' else s)) (Num scale))"
  by (simp add: amountLamports_of_def)

lemma withdraw_samples:
  "amountLamports_of 1000 ''0.999'' = Num 999"
  "amountLamports_of 1000 ''0.9995'' = Num 999"
  "Math_round (js_mul (parseFloat ''0.9995'') (Num 1000)) = Num 1000"
  "amountLamports_of 1000 ''abc'' = NaN"
  "new_BN NaN = Inl (Error ''Invalid character'')"
  "amountLamports_of 1000 ''-0.0005'' = Num (- 1)"
  by code_simp+

lemma withdraw_empty: "amountLamports_of scale [] = Num 0"
  by (simp add: amountLamports_of_def parseFloat_samples js_mul_def fl_def Math_floor_def)

lemma js_mul_one: "fl scale = Num scale \<Longrightarrow> js_mul (Num 1) (Num scale) = Num scale"
  by (simp add: js_mul_def)

lemma withdraw_comma:
  "fl (of_int n) = Num (of_int n) \<Longrightarrow> amountLamports_of (of_int n) ''1,5'' = Num (of_int n)"
  by (simp add: amountLamports_of_def parseFloat_samples js_mul_one Math_floor_def)

lemma fl_sample: "fl 1000000000 = Num 1000000000"
  by code_simp

lemma withdraw_comma_sample: "amountLamports_of 1000000000 ''1,5'' = Num 1000000000"
  using withdraw_comma [of 1000000000] fl_sample by simp


lemma create_accepted:
  assumes "program w" "wallet_publicKey w = Some signer" "LAMPORTS_PER_SOL w = 1000000000"
  shows "take 1 (snd (handleCreateEvent w ''1,5'' t d ui))
         = [InitEventRpc (Date_now w) 1500000000 t d signer
              (deriveEventPdaFromSigner w signer (Date_now w))]"
  using assms
  by (simp add: handleCreateEvent_def price_accepted price_sample generateEventIdBn_def
      handleError_def Let_def split: sum.splits option.splits)

lemma withdraw_submitted:
  assumes "program w" "wallet_publicKey w = Some signer" "PublicKey_ctor e = Inr pk"
    "new_BN (amountLamports_of (LAMPORTS_PER_SOL w) a) = Inr n"
  shows "take 1 (snd (handleWithdraw w e a ui)) = [WithdrawRpc n signer pk]"
proof -
  have "e \<noteq> []" using assms(3) PublicKey_ctor_empty by auto
  then show ?thesis
    using assms
    by (simp add: handleWithdraw_def handleError_def Let_def split: sum.splits)
qed

lemma price_rounding:
  assumes "js_mul (Num (3 / 2)) (Num scale) = Num r"
  shows "priceLamports_of scale ''1,5'' = Inr (Num (of_int \<lfloor>r + 1 / 2\<rfloor>))"
    and "priceLamports_of scale ''1.5'' = Inr (Num (of_int \<lfloor>r + 1 / 2\<rfloor>))"
  by (simp_all only: price_accepted assms Math_round_def jsnum.case)

lemma price_rounding_samples:
  "js_mul (Num (3 / 2)) (Num 1) = Num (3 / 2)"
  "js_mul (Num (3 / 2)) (Num (3 / 4)) = Num (9 / 8)"
  "Math_round (js_mul (Num (3 / 2)) (Num 1)) = Num 2"
  "Math_round (js_mul (Num (3 / 2)) (Num (3 / 4))) = Num 1"
  by code_simp+

lemma create_submitted:
  assumes "program w" "wallet_publicKey w = Some signer"
    "priceLamports_of (LAMPORTS_PER_SOL w) p = Inr v" "new_BN v = Inr n"
  shows "take 1 (snd (handleCreateEvent w p t d ui))
         = [InitEventRpc (Date_now w) n t d signer
              (deriveEventPdaFromSigner w signer (Date_now w))]"
  using assms
  by (simp add: handleCreateEvent_def generateEventIdBn_def handleError_def Let_def
      split: sum.splits option.splits)

lemma withdraw_floor_finite:
  assumes "js_mul (parseFloat (if a = [] then ''0'' else a)) (Num scale) = Num r"
  shows "amountLamports_of scale a = Num (of_int \<lfloor>r\<rfloor>)"
  using assms by (simp add: withdraw_floor Math_floor_def)

lemma withdraw_one_submission:
  assumes "program w" "wallet_publicKey w = Some signer" "PublicKey_ctor e = Inr pk"
    "new_BN (amountLamports_of (LAMPORTS_PER_SOL w) a) = Inr n"
  shows "filter is_submission (snd (handleWithdraw w e a ui)) = [WithdrawRpc n signer pk]"
proof -
  have "e \<noteq> []" using assms(3) PublicKey_ctor_empty by auto
  then show ?thesis
    using assms
    by (simp add: handleWithdraw_def handleError_def Let_def is_submission_def
        split: sum.splits)
qed

lemma withdraw_no_submission:
  assumes "program w" "wallet_publicKey w = Some signer" "PublicKey_ctor e = Inr pk"
    "new_BN (amountLamports_of (LAMPORTS_PER_SOL w) a) = Inl err"
  shows "\<not> list_ex is_submission (snd (handleWithdraw w e a ui))"
proof -
  have "e \<noteq> []" using assms(3) PublicKey_ctor_empty by auto
  then show ?thesis
    using assms
    by (simp add: handleWithdraw_def handleError_def Let_def is_submission_def)
qed

lemma withdraw_large_samples:
  "js_mul (parseFloat ''0.0000000015'') (Num 1000000000) = Num (3 / 2)"
  "js_mul (parseFloat ''123456789.123456789'') (Num 1000000000) = Num 123456789123456784"
  "printed_integer 123456789123456784 = 123456789123456780"
  "js_mul (parseFloat ''1e12'') (Num 1000000000) = Num 1000000000000000000000"
  "js_mul (parseFloat ''0.9995'') (Num 1000) = Num (1999 / 2)"
  by code_simp+

text \<open>
  Claim C4. Create-event rejects the prices \<^verbatim>\<open>-1\<close> and \<^verbatim>\<open>abc\<close> with the error
  "Invalid ticket price": the handler reports it and submits nothing. It accepts \<^verbatim>\<open>1,5\<close>
  and \<^verbatim>\<open>1.5\<close> alike: both parse to 1.5 and give the same amount, the rounding of the
  parsed value times the unit scale, which is 1500000000 at a scale of \<open>10\<^sup>9\<close>, and the
  two runs of the handler are equal. The rounding is to the nearest integer, a half going
  up: when the product is the finite number \<open>r\<close> the amount is the greatest integer not
  above \<open>r + 1 / 2\<close>, so the product 1.5 gives 2 and the product 1.125 gives 1, and when
  that integer is below \<open>2\<^sup>5\<^sup>3\<close> in magnitude it is the price the handler submits.
\<close>

theorem create_event_price_validation:
  "priceLamports_of scale ''-1'' = Inl (Error ''Invalid ticket price'') \<and>
   priceLamports_of scale ''abc'' = Inl (Error ''Invalid ticket price'') \<and>
   priceLamports_of scale ''1,5'' = Inr (Math_round (js_mul (Num (3 / 2)) (Num scale))) \<and>
   priceLamports_of scale ''1.5'' = Inr (Math_round (js_mul (Num (3 / 2)) (Num scale))) \<and>
   priceLamports_of 1000000000 ''1,5'' = Inr (Num 1500000000) \<and>
   handleCreateEvent w ''1,5'' title description ui
     = handleCreateEvent w ''1.5'' title description ui \<and>
   (program w \<and> wallet_publicKey w = Some signer \<longrightarrow>
      handleCreateEvent w ''-1'' title description ui
        = (ui\<lparr>txStatus := Some (Status Cross ''Invalid ticket price'')\<rparr>,
           [Console Err ''Raw error object:'']) \<and>
      handleCreateEvent w ''abc'' title description ui
        = (ui\<lparr>txStatus := Some (Status Cross ''Invalid ticket price'')\<rparr>,
           [Console Err ''Raw error object:'']) \<and>
      (LAMPORTS_PER_SOL w = 1000000000 \<longrightarrow>
         take 1 (snd (handleCreateEvent w ''1,5'' title description ui))
           = [InitEventRpc (Date_now w) 1500000000 title description signer
                (deriveEventPdaFromSigner w signer (Date_now w))])) \<and>
   (js_mul (Num (3 / 2)) (Num scale) = Num r \<longrightarrow>
      priceLamports_of scale ''1,5'' = Inr (Num (of_int \<lfloor>r + 1 / 2\<rfloor>)) \<and>
      priceLamports_of scale ''1.5'' = Inr (Num (of_int \<lfloor>r + 1 / 2\<rfloor>))) \<and>
   priceLamports_of 1 ''1,5'' = Inr (Num 2) \<and>
   priceLamports_of 1 ''1.5'' = Inr (Num 2) \<and>
   priceLamports_of (3 / 4) ''1,5'' = Inr (Num 1) \<and>
   priceLamports_of (3 / 4) ''1.5'' = Inr (Num 1) \<and>
   (program w \<and> wallet_publicKey w = Some signer \<and>
    js_mul (Num (3 / 2)) (Num (LAMPORTS_PER_SOL w)) = Num q \<and> \<bar>\<lfloor>q + 1 / 2\<rfloor>\<bar> < 2 ^ 53 \<longrightarrow>
      take 1 (snd (handleCreateEvent w ''1,5'' title description ui))
        = [InitEventRpc (Date_now w) \<lfloor>q + 1 / 2\<rfloor> title description signer
             (deriveEventPdaFromSigner w signer (Date_now w))])"
proof -
  have same: "handleCreateEvent w ''1,5'' title description ui
              = handleCreateEvent w ''1.5'' title description ui"
    by (rule create_same_price) (simp only: price_accepted)
  have sample: "priceLamports_of 1000000000 ''1,5'' = Inr (Num 1500000000)"
    by (simp only: price_accepted price_sample)
  have old: "priceLamports_of scale ''-1'' = Inl (Error ''Invalid ticket price'') \<and>
   priceLamports_of scale ''abc'' = Inl (Error ''Invalid ticket price'') \<and>
   priceLamports_of scale ''1,5'' = Inr (Math_round (js_mul (Num (3 / 2)) (Num scale))) \<and>
   priceLamports_of scale ''1.5'' = Inr (Math_round (js_mul (Num (3 / 2)) (Num scale))) \<and>
   priceLamports_of 1000000000 ''1,5'' = Inr (Num 1500000000) \<and>
   handleCreateEvent w ''1,5'' title description ui
     = handleCreateEvent w ''1.5'' title description ui \<and>
   (program w \<and> wallet_publicKey w = Some signer \<longrightarrow>
      handleCreateEvent w ''-1'' title description ui
        = (ui\<lparr>txStatus := Some (Status Cross ''Invalid ticket price'')\<rparr>,
           [Console Err ''Raw error object:'']) \<and>
      handleCreateEvent w ''abc'' title description ui
        = (ui\<lparr>txStatus := Some (Status Cross ''Invalid ticket price'')\<rparr>,
           [Console Err ''Raw error object:'']) \<and>
      (LAMPORTS_PER_SOL w = 1000000000 \<longrightarrow>
         take 1 (snd (handleCreateEvent w ''1,5'' title description ui))
           = [InitEventRpc (Date_now w) 1500000000 title description signer
                (deriveEventPdaFromSigner w signer (Date_now w))]))"
    using price_rejected [of scale] price_accepted [of scale] same sample
      create_rejected [of w signer _ "''Invalid ticket price''" title description ui]
      price_rejected [of "LAMPORTS_PER_SOL w"]
      create_accepted [of w signer title description ui]
    by (simp only:) blast
  have half: "priceLamports_of 1 ''1,5'' = Inr (Num 2)" "priceLamports_of 1 ''1.5'' = Inr (Num 2)"
    "priceLamports_of (3 / 4) ''1,5'' = Inr (Num 1)"
    "priceLamports_of (3 / 4) ''1.5'' = Inr (Num 1)"
    by (simp_all only: price_accepted price_rounding_samples(3,4))
  have submitted: "take 1 (snd (handleCreateEvent w ''1,5'' title description ui))
        = [InitEventRpc (Date_now w) \<lfloor>q + 1 / 2\<rfloor> title description signer
             (deriveEventPdaFromSigner w signer (Date_now w))]"
    if "program w" "wallet_publicKey w = Some signer"
      "js_mul (Num (3 / 2)) (Num (LAMPORTS_PER_SOL w)) = Num q" "\<bar>\<lfloor>q + 1 / 2\<rfloor>\<bar> < 2 ^ 53"
    using that(1,2) price_rounding(1) [OF that(3)] new_BN_safe [OF that(4)]
    by (rule create_submitted)
  show ?thesis
    using old price_rounding [of scale r] half submitted by blast
qed

theorem create_event_price_validation_witness:
  "program sample_world \<and> wallet_publicKey sample_world = Some (sample_key 1) \<and>
   LAMPORTS_PER_SOL sample_world = 1000000000 \<and>
   handleCreateEvent sample_world ''-1'' ''title'' ''text'' initial_ui
     = (initial_ui\<lparr>txStatus := Some (Status Cross ''Invalid ticket price'')\<rparr>,
        [Console Err ''Raw error object:'']) \<and>
   handleCreateEvent sample_world ''abc'' ''title'' ''text'' initial_ui
     = (initial_ui\<lparr>txStatus := Some (Status Cross ''Invalid ticket price'')\<rparr>,
        [Console Err ''Raw error object:'']) \<and>
   take 1 (snd (handleCreateEvent sample_world ''1,5'' ''title'' ''text'' initial_ui))
     = [InitEventRpc 1730000000000 1500000000 ''title'' ''text'' (sample_key 1)
          (deriveEventPdaFromSigner sample_world (sample_key 1) 1730000000000)] \<and>
   js_mul (Num (3 / 2)) (Num (3 / 4)) = Num (9 / 8) \<and>
   priceLamports_of (3 / 4) ''1,5'' = Inr (Num (of_int \<lfloor>9 / 8 + 1 / 2 :: rat\<rfloor>)) \<and>
   js_mul (Num (3 / 2)) (Num (LAMPORTS_PER_SOL sample_world)) = Num 1500000000 \<and>
   \<bar>\<lfloor>1500000000 + 1 / 2 :: rat\<rfloor>\<bar> < 2 ^ 53"
proof -
  have h: "program sample_world" "wallet_publicKey sample_world = Some (sample_key 1)"
    "LAMPORTS_PER_SOL sample_world = 1000000000" "Date_now sample_world = 1730000000000"
    by (simp_all add: sample_world_def)
  have m: "js_mul (Num (3 / 2)) (Num 1000000000) = Num 1500000000"
    by code_simp
  have f: "\<lfloor>1500000000 + 1 / 2 :: rat\<rfloor> = 1500000000"
    by (simp add: floor_eq_iff)
  have r: "priceLamports_of (3 / 4) ''1,5'' = Inr (Num (of_int \<lfloor>9 / 8 + 1 / 2 :: rat\<rfloor>))"
    using create_event_price_validation [of "3 / 4" sample_world "''title''" "''text''"
        initial_ui "sample_key 1" "9 / 8"] price_rounding_samples(2)
    by blast
  have old: "program sample_world \<and> wallet_publicKey sample_world = Some (sample_key 1) \<and>
   LAMPORTS_PER_SOL sample_world = 1000000000 \<and>
   handleCreateEvent sample_world ''-1'' ''title'' ''text'' initial_ui
     = (initial_ui\<lparr>txStatus := Some (Status Cross ''Invalid ticket price'')\<rparr>,
        [Console Err ''Raw error object:'']) \<and>
   handleCreateEvent sample_world ''abc'' ''title'' ''text'' initial_ui
     = (initial_ui\<lparr>txStatus := Some (Status Cross ''Invalid ticket price'')\<rparr>,
        [Console Err ''Raw error object:'']) \<and>
   take 1 (snd (handleCreateEvent sample_world ''1,5'' ''title'' ''text'' initial_ui))
     = [InitEventRpc 1730000000000 1500000000 ''title'' ''text'' (sample_key 1)
          (deriveEventPdaFromSigner sample_world (sample_key 1) 1730000000000)]"
    using create_event_price_validation [of 1000000000 sample_world "''title''" "''text''"
        initial_ui "sample_key 1", unfolded h(4)] h(1,2,3)
    by blast
  have m': "js_mul (Num (3 / 2)) (Num (LAMPORTS_PER_SOL sample_world)) = Num 1500000000"
    by (simp only: h(3) m)
  have b: "\<bar>\<lfloor>1500000000 + 1 / 2 :: rat\<rfloor>\<bar> < 2 ^ 53"
    by (simp only: f) simp
  show ?thesis
    using old price_rounding_samples(2) r m' b by blast
qed

text \<open>
  Claim C5, as amended. Withdraw turns the amount into lamports with \<^verbatim>\<open>Math.floor\<close>, not
  by rounding: whenever the parsed amount times the unit scale is a finite number, the
  result is the greatest integer not above it. So \<^verbatim>\<open>0.999\<close> at a unit scale of 1000 gives
  999, and \<^verbatim>\<open>0.9995\<close> gives 999 where rounding gives 1000. When that integer is below
  \<open>2\<^sup>5\<^sup>3\<close> in magnitude, the handler submits exactly one withdrawal, with that integer as
  its amount; below \<open>10\<^sup>2\<^sup>1\<close> the amount submitted is the integer that the Number prints
  as, which can differ in the low digits; from \<open>10\<^sup>2\<^sup>1\<close> on nothing is submitted. An empty
  amount is read as zero and the withdrawal is submitted with the amount 0.
\<close>

theorem withdraw_amount_floor:
  "(js_mul (parseFloat (if s = [] then ''0'' else s)) (Num scale) = Num r \<longrightarrow>
      amountLamports_of scale s = Num (of_int \<lfloor>r\<rfloor>)) \<and>
   amountLamports_of 1000 ''0.999'' = Num 999 \<and>
   amountLamports_of 1000 ''0.9995'' = Num 999 \<and>
   Math_round (js_mul (parseFloat ''0.9995'') (Num 1000)) = Num 1000 \<and>
   amountLamports_of scale [] = Num 0 \<and>
   (program w \<and> wallet_publicKey w = Some signer \<and> PublicKey_ctor e = Inr pk \<longrightarrow>
      filter is_submission (snd (handleWithdraw w e [] ui)) = [WithdrawRpc 0 signer pk] \<and>
      (js_mul (parseFloat (if a = [] then ''0'' else a)) (Num (LAMPORTS_PER_SOL w)) = Num q \<longrightarrow>
         (\<bar>\<lfloor>q\<rfloor>\<bar> < 2 ^ 53 \<longrightarrow>
            filter is_submission (snd (handleWithdraw w e a ui))
              = [WithdrawRpc \<lfloor>q\<rfloor> signer pk]) \<and>
         (\<bar>of_int \<lfloor>q\<rfloor> :: rat\<bar> < 10 ^ 21 \<longrightarrow>
            filter is_submission (snd (handleWithdraw w e a ui))
              = [WithdrawRpc (printed_integer (of_int \<lfloor>q\<rfloor>)) signer pk]) \<and>
         (10 ^ 21 \<le> \<bar>of_int \<lfloor>q\<rfloor> :: rat\<bar> \<longrightarrow>
            \<not> list_ex is_submission (snd (handleWithdraw w e a ui)))))"
proof -
  have pure: "(js_mul (parseFloat (if s = [] then ''0'' else s)) (Num scale) = Num r \<longrightarrow>
      amountLamports_of scale s = Num (of_int \<lfloor>r\<rfloor>)) \<and>
   amountLamports_of 1000 ''0.999'' = Num 999 \<and>
   amountLamports_of 1000 ''0.9995'' = Num 999 \<and>
   Math_round (js_mul (parseFloat ''0.9995'') (Num 1000)) = Num 1000 \<and>
   amountLamports_of scale [] = Num 0"
    using withdraw_samples(1,2,3) withdraw_empty [of scale]
    by (simp add: withdraw_floor Math_floor_def)
  have handler: "filter is_submission (snd (handleWithdraw w e [] ui)) = [WithdrawRpc 0 signer pk] \<and>
      (js_mul (parseFloat (if a = [] then ''0'' else a)) (Num (LAMPORTS_PER_SOL w)) = Num q \<longrightarrow>
         (\<bar>\<lfloor>q\<rfloor>\<bar> < 2 ^ 53 \<longrightarrow>
            filter is_submission (snd (handleWithdraw w e a ui))
              = [WithdrawRpc \<lfloor>q\<rfloor> signer pk]) \<and>
         (\<bar>of_int \<lfloor>q\<rfloor> :: rat\<bar> < 10 ^ 21 \<longrightarrow>
            filter is_submission (snd (handleWithdraw w e a ui))
              = [WithdrawRpc (printed_integer (of_int \<lfloor>q\<rfloor>)) signer pk]) \<and>
         (10 ^ 21 \<le> \<bar>of_int \<lfloor>q\<rfloor> :: rat\<bar> \<longrightarrow>
            \<not> list_ex is_submission (snd (handleWithdraw w e a ui))))"
    if c: "program w" "wallet_publicKey w = Some signer" "PublicKey_ctor e = Inr pk"
  proof -
    have zero: "new_BN (amountLamports_of (LAMPORTS_PER_SOL w) []) = Inr 0"
      using new_BN_safe [of 0] by (simp add: withdraw_empty)
    have 0: "filter is_submission (snd (handleWithdraw w e [] ui)) = [WithdrawRpc 0 signer pk]"
      by (rule withdraw_one_submission [OF c zero])
    have 1: "filter is_submission (snd (handleWithdraw w e a ui)) = [WithdrawRpc \<lfloor>q\<rfloor> signer pk]"
      if "js_mul (parseFloat (if a = [] then ''0'' else a)) (Num (LAMPORTS_PER_SOL w)) = Num q"
        and "\<bar>\<lfloor>q\<rfloor>\<bar> < 2 ^ 53"
      using withdraw_one_submission [OF c, of a "\<lfloor>q\<rfloor>" ui]
        withdraw_floor_finite [OF that(1)] new_BN_safe [OF that(2)]
      by simp
    have 2: "filter is_submission (snd (handleWithdraw w e a ui))
              = [WithdrawRpc (printed_integer (of_int \<lfloor>q\<rfloor>)) signer pk]"
      if "js_mul (parseFloat (if a = [] then ''0'' else a)) (Num (LAMPORTS_PER_SOL w)) = Num q"
        and "\<bar>of_int \<lfloor>q\<rfloor> :: rat\<bar> < 10 ^ 21"
      using withdraw_one_submission [OF c, of a "printed_integer (of_int \<lfloor>q\<rfloor>)" ui]
        withdraw_floor_finite [OF that(1)] new_BN_printed [OF that(2)]
      by simp
    have 3: "\<not> list_ex is_submission (snd (handleWithdraw w e a ui))"
      if "js_mul (parseFloat (if a = [] then ''0'' else a)) (Num (LAMPORTS_PER_SOL w)) = Num q"
        and "10 ^ 21 \<le> \<bar>of_int \<lfloor>q\<rfloor> :: rat\<bar>"
      using withdraw_no_submission [OF c, of a "Error ''Invalid character''" ui]
        withdraw_floor_finite [OF that(1)] new_BN_too_large [OF that(2)]
      by simp
    show ?thesis using 0 1 2 3 by blast
  qed
  show ?thesis using pure handler by blast
qed

theorem withdraw_amount_floor_witness:
  "js_mul (parseFloat (if ''0.9995'' = [] then ''0'' else ''0.9995'')) (Num 1000) = Num (1999 / 2) \<and>
   amountLamports_of 1000 ''0.9995'' = Num (of_int \<lfloor>1999 / 2 :: rat\<rfloor>) \<and>
   program sample_world \<and> wallet_publicKey sample_world = Some (sample_key 1) \<and>
   PublicKey_ctor event_address = Inr (sample_key 2) \<and>
   filter is_submission (snd (handleWithdraw sample_world event_address [] initial_ui))
     = [WithdrawRpc 0 (sample_key 1) (sample_key 2)] \<and>
   js_mul (parseFloat ''0.0000000015'') (Num (LAMPORTS_PER_SOL sample_world)) = Num (3 / 2) \<and>
   filter is_submission
     (snd (handleWithdraw sample_world event_address ''0.0000000015'' initial_ui))
     = [WithdrawRpc 1 (sample_key 1) (sample_key 2)] \<and>
   js_mul (parseFloat ''123456789.123456789'') (Num (LAMPORTS_PER_SOL sample_world))
     = Num 123456789123456784 \<and>
   filter is_submission
     (snd (handleWithdraw sample_world event_address ''123456789.123456789'' initial_ui))
     = [WithdrawRpc 123456789123456780 (sample_key 1) (sample_key 2)] \<and>
   js_mul (parseFloat ''1e12'') (Num (LAMPORTS_PER_SOL sample_world))
     = Num 1000000000000000000000 \<and>
   \<not> list_ex is_submission
       (snd (handleWithdraw sample_world event_address ''1e12'' initial_ui))"
proof -
  note w = sample_world_simps(1,2) sample_keys(2)
  note t = withdraw_amount_floor [where w = sample_world and signer = "sample_key 1"
      and e = event_address and pk = "sample_key 2" and ui = initial_ui]
  have 1: "js_mul (parseFloat (if ''0.9995'' = [] then ''0'' else ''0.9995'')) (Num 1000)
           = Num (1999 / 2)"
    using withdraw_large_samples(5) by simp
  have 2: "amountLamports_of 1000 ''0.9995'' = Num (of_int \<lfloor>1999 / 2 :: rat\<rfloor>)"
    using t [of "''0.9995''" 1000 "1999 / 2"] 1 by blast
  have 3: "filter is_submission (snd (handleWithdraw sample_world event_address [] initial_ui))
     = [WithdrawRpc 0 (sample_key 1) (sample_key 2)]"
    using t w by blast
  have m4: "js_mul (parseFloat (if ''0.0000000015'' = [] then ''0'' else ''0.0000000015''))
              (Num (LAMPORTS_PER_SOL sample_world)) = Num (3 / 2)"
    using withdraw_large_samples(1) by (simp add: sample_world_simps)
  have f4: "\<lfloor>3 / 2 :: rat\<rfloor> = 1" by (simp add: floor_eq_iff)
  have 4: "filter is_submission
     (snd (handleWithdraw sample_world event_address ''0.0000000015'' initial_ui))
     = [WithdrawRpc 1 (sample_key 1) (sample_key 2)]"
    using t [where a = "''0.0000000015''" and q = "3 / 2"] w m4
    by (simp only: f4) simp
  have m5: "js_mul (parseFloat (if ''123456789.123456789'' = [] then ''0''
                                 else ''123456789.123456789''))
              (Num (LAMPORTS_PER_SOL sample_world)) = Num 123456789123456784"
    using withdraw_large_samples(2) by (simp add: sample_world_simps)
  have f5: "\<lfloor>123456789123456784 :: rat\<rfloor> = 123456789123456784" by simp
  have 5: "filter is_submission
     (snd (handleWithdraw sample_world event_address ''123456789.123456789'' initial_ui))
     = [WithdrawRpc 123456789123456780 (sample_key 1) (sample_key 2)]"
    using t [where a = "''123456789.123456789''" and q = 123456789123456784] w m5
      withdraw_large_samples(3)
    by (simp only: f5) simp
  have m6: "js_mul (parseFloat (if ''1e12'' = [] then ''0'' else ''1e12''))
              (Num (LAMPORTS_PER_SOL sample_world)) = Num 1000000000000000000000"
    using withdraw_large_samples(4) by (simp add: sample_world_simps)
  have f6: "\<lfloor>1000000000000000000000 :: rat\<rfloor> = 1000000000000000000000" by simp
  have 6: "\<not> list_ex is_submission
       (snd (handleWithdraw sample_world event_address ''1e12'' initial_ui))"
    using t [where a = "''1e12''" and q = 1000000000000000000000] w m6
    by (simp only: f6) simp
  show ?thesis
    using 1 2 w 3 4 5 6 m4 m5 m6 by simp
qed

text \<open>
  The claim C5 as the spec states it adds that a non-numeric amount is treated as zero
  and the withdrawal proceeds with the amount 0. For the amount \<^verbatim>\<open>abc\<close> the computed
  Number is \<^verbatim>\<open>NaN\<close>, the big-number constructor throws, and the handler reports the error
  without submitting a withdrawal.
\<close>

theorem withdraw_non_numeric_counterexample:
  "amountLamports_of 1000 ''abc'' \<noteq> Num 0 \<and>
   handleWithdraw sample_world event_address ''abc'' initial_ui
     = (initial_ui\<lparr>txStatus := Some (Status Cross ''Invalid character'')\<rparr>,
        [Console Err ''Raw error object:''])"
proof -
  have "amountLamports_of 1000000000 ''abc'' = NaN"
    by code_simp
  then show ?thesis
    by (simp add: withdraw_samples handleWithdraw_def sample_world_def sample_keys
        sample_addresses_nonempty handleError_Error)
qed

text \<open>
  Claim C10. Withdraw does not turn a comma into a dot: \<^verbatim>\<open>1,5\<close> parses to 1, the numeric
  prefix before the comma, and the amount is the unit scale itself for every unit scale
  that is an integer Number; at a scale of \<open>10\<^sup>9\<close> the handler submits 1000000000,
  where create-event computes 1500000000 from the same input.
\<close>

theorem withdraw_no_comma_normalization:
  "parseFloat ''1,5'' = Num 1 \<and>
   (fl (of_int n) = Num (of_int n) \<longrightarrow>
      amountLamports_of (of_int n) ''1,5'' = Num (of_int n)) \<and>
   amountLamports_of 1000000000 ''1,5'' = Num 1000000000 \<and>
   priceLamports_of 1000000000 ''1,5'' = Inr (Num 1500000000) \<and>
   (program w \<and> wallet_publicKey w = Some signer \<and> PublicKey_ctor e = Inr pk \<and>
    LAMPORTS_PER_SOL w = 1000000000 \<longrightarrow>
      take 1 (snd (handleWithdraw w e ''1,5'' ui)) = [WithdrawRpc 1000000000 signer pk])"
proof -
  have bn: "new_BN (Num 1000000000) = Inr 1000000000"
    by code_simp
  have sample: "priceLamports_of 1000000000 ''1,5'' = Inr (Num 1500000000)"
    by (simp only: price_accepted price_sample)
  have "take 1 (snd (handleWithdraw w e ''1,5'' ui)) = [WithdrawRpc 1000000000 signer pk]"
    if "program w" "wallet_publicKey w = Some signer" "PublicKey_ctor e = Inr pk"
      "LAMPORTS_PER_SOL w = 1000000000"
    using that withdraw_submitted [of w signer e pk "''1,5''" 1000000000 ui]
    by (simp add: withdraw_comma_sample bn)
  then show ?thesis
    using parseFloat_samples(4) withdraw_comma [of n] withdraw_comma_sample sample
    by blast
qed

theorem withdraw_no_comma_normalization_witness:
  "fl (of_int 1000000000) = Num (of_int 1000000000) \<and>
   program sample_world \<and> wallet_publicKey sample_world = Some (sample_key 1) \<and>
   PublicKey_ctor event_address = Inr (sample_key 2) \<and>
   LAMPORTS_PER_SOL sample_world = 1000000000 \<and>
   amountLamports_of (of_int 1000000000) ''1,5'' = Num (of_int 1000000000) \<and>
   take 1 (snd (handleWithdraw sample_world event_address ''1,5'' initial_ui))
     = [WithdrawRpc 1000000000 (sample_key 1) (sample_key 2)]"
proof -
  have h: "fl (of_int 1000000000) = Num (of_int 1000000000)"
    "program sample_world" "wallet_publicKey sample_world = Some (sample_key 1)"
    "LAMPORTS_PER_SOL sample_world = 1000000000"
    using fl_sample by (simp_all add: sample_world_def)
  show ?thesis
    using withdraw_no_comma_normalization [of 1000000000 sample_world "sample_key 1"
        event_address "sample_key 2" initial_ui] h sample_keys(2)
    by blast
qed

section \<open>Results on the handlers\<close>

lemma join_trace_order: "preceded is_setup is_join (snd (handleJoinEvent w s ui))"
  by (simp add: handleJoinEvent_def handleError_def Let_def is_setup_def is_join_def
      split: option.splits sum.splits)

lemma join_no_confirm: "\<not> list_ex is_confirm (snd (handleJoinEvent w s ui))"
  by (simp add: handleJoinEvent_def handleError_def Let_def is_confirm_def
      split: option.splits sum.splits)

lemma join_after_failed_setup:
  "sendTransaction w = Inl e \<Longrightarrow> \<not> list_ex is_join (snd (handleJoinEvent w s ui))"
  by (simp add: handleJoinEvent_def handleError_def Let_def is_join_def
      split: option.splits sum.splits)

lemma join_needs_setup:
  "list_ex is_join (snd (handleJoinEvent w s ui)) \<Longrightarrow> \<exists>sig. sendTransaction w = Inr sig"
  using join_after_failed_setup [of w _ s ui] by (cases "sendTransaction w") auto

lemma join_ticket_address:
  "JoinEventRpc u e t m a b \<in> set (snd (handleJoinEvent w s ui)) \<Longrightarrow>
     t = deriveTicketPda w e u \<and> wallet_publicKey w = Some u \<and> PublicKey_ctor s = Inr e"
  by (auto simp add: handleJoinEvent_def handleError_def Let_def
      split: option.splits sum.splits if_splits)

lemma sample_join_trace:
  "snd (handleJoinEvent sample_world event_address initial_ui)
   = [GetMinimumBalanceForRentExemption 82,
      GetAssociatedTokenAddress (sample_key 7) (sample_key 1),
      SendTransaction
        [CreateAccount (sample_key 1) (sample_key 7) 1461600 82,
         InitializeMint (sample_key 7) 0
           (findProgramAddressSync sample_world [utf8 ''mint_auth'', sample_key 7] (sample_key 9))
           None,
         CreateAssociatedTokenAccount (sample_key 1) (sample_key 8) (sample_key 1) (sample_key 7)]
        [sample_key 7],
      Console Log ''Mint + ATA setup tx:'',
      JoinEventRpc (sample_key 1) (sample_key 2)
        (deriveTicketPda sample_world (sample_key 2) (sample_key 1)) (sample_key 7)
        (findProgramAddressSync sample_world [utf8 ''mint_auth'', sample_key 7] (sample_key 9))
        (sample_key 8),
      RefreshTickets]"
  by (simp add: handleJoinEvent_def sample_world_simps sample_keys sample_addresses_nonempty
      sample_event_def MINT_SIZE_def Let_def)

text \<open>
  Claim C1, as amended. In every run of the join handler the join invocation comes after
  the call that sends the setup transaction, and it is made only when that call returned
  a signature: when the call throws, no join invocation is made. The handler makes no
  call that waits for a confirmation.
\<close>

theorem join_after_setup_submission:
  "preceded is_setup is_join (snd (handleJoinEvent w s ui)) \<and>
   (sendTransaction w = Inl e \<longrightarrow> \<not> list_ex is_join (snd (handleJoinEvent w s ui))) \<and>
   (list_ex is_join (snd (handleJoinEvent w s ui)) \<longrightarrow> (\<exists>sig. sendTransaction w = Inr sig)) \<and>
   \<not> list_ex is_confirm (snd (handleJoinEvent w s ui))"
  using join_trace_order [of w s ui] join_after_failed_setup [of w e s ui]
    join_needs_setup [of w s ui] join_no_confirm [of w s ui]
  by blast

theorem join_after_setup_submission_witness:
  "sendTransaction rejecting_world = Inl (Error ''User rejected the request'') \<and>
   \<not> list_ex is_join (snd (handleJoinEvent rejecting_world event_address initial_ui)) \<and>
   list_ex is_join (snd (handleJoinEvent sample_world event_address initial_ui)) \<and>
   sendTransaction sample_world = Inr ''setupSig'' \<and>
   preceded is_setup is_join (snd (handleJoinEvent sample_world event_address initial_ui))"
proof -
  have h: "sendTransaction rejecting_world = Inl (Error ''User rejected the request'')"
    "list_ex is_join (snd (handleJoinEvent sample_world event_address initial_ui))"
    "sendTransaction sample_world = Inr ''setupSig''"
    by (simp_all add: variant_worlds sample_world_simps sample_join_trace is_join_def)
  show ?thesis
    using join_after_setup_submission [of rejecting_world event_address initial_ui
        "Error ''User rejected the request''"]
      join_after_setup_submission [of sample_world event_address initial_ui] h
    by blast
qed

text \<open>
  The claim C1 as the spec states it asks that the setup transaction be confirmed before
  the join invocation. In the run with the sample collaborators the join invocation is
  made and no confirmation call comes before it.
\<close>

theorem join_before_confirmation_counterexample:
  "list_ex is_join (snd (handleJoinEvent sample_world event_address initial_ui)) \<and>
   \<not> preceded is_confirm is_join (snd (handleJoinEvent sample_world event_address initial_ui))"
  unfolding sample_join_trace by (simp add: is_join_def is_confirm_def)

text \<open>
  Claim C3. The derived addresses are functions of their inputs only. The event address
  is the key library's derivation on the seeds \<^verbatim>\<open>event\<close>, the organizer's key bytes and the
  8 little-endian bytes of the event identifier; the ticket address, which the join
  handler passes as the ticket account, is the derivation on \<^verbatim>\<open>ticket\<close>, the event's bytes
  and the participant's bytes. Equal inputs give equal addresses, whatever the clock,
  the wallet, the loaded events and the outcomes of the other calls are.
\<close>

theorem address_derivation_deterministic:
  "deriveEventPdaFromSigner w signer eventId
     = findProgramAddressSync w [utf8 ''event'', signer, bnToLe8 eventId] (PROGRAM_ID w) \<and>
   deriveTicketPda w eventPda user
     = findProgramAddressSync w [utf8 ''ticket'', eventPda, user] (PROGRAM_ID w) \<and>
   length (bnToLe8 eventId) = 8 \<and>
   (findProgramAddressSync w = findProgramAddressSync w' \<and> PROGRAM_ID w = PROGRAM_ID w' \<and>
    signer = signer' \<and> eventId = eventId' \<and> eventPda = eventPda' \<and> user = user' \<longrightarrow>
      deriveEventPdaFromSigner w signer eventId = deriveEventPdaFromSigner w' signer' eventId' \<and>
      deriveTicketPda w eventPda user = deriveTicketPda w' eventPda' user') \<and>
   (JoinEventRpc u ev t m a b \<in> set (snd (handleJoinEvent w s ui)) \<longrightarrow>
      t = deriveTicketPda w ev u \<and> wallet_publicKey w = Some u \<and> PublicKey_ctor s = Inr ev)"
  using join_ticket_address [of u ev t m a b w s ui]
  by (auto simp add: deriveEventPdaFromSigner_def deriveTicketPda_def bnToLe8_def)

theorem address_derivation_deterministic_witness:
  "findProgramAddressSync sample_world = findProgramAddressSync rejecting_world \<and>
   PROGRAM_ID sample_world = PROGRAM_ID rejecting_world \<and>
   deriveEventPdaFromSigner sample_world (sample_key 1) 1730000000000
     = deriveEventPdaFromSigner rejecting_world (sample_key 1) 1730000000000 \<and>
   deriveTicketPda sample_world (sample_key 2) (sample_key 1)
     = deriveTicketPda rejecting_world (sample_key 2) (sample_key 1) \<and>
   JoinEventRpc (sample_key 1) (sample_key 2)
       (deriveTicketPda sample_world (sample_key 2) (sample_key 1)) (sample_key 7)
       (findProgramAddressSync sample_world [utf8 ''mint_auth'', sample_key 7] (sample_key 9))
       (sample_key 8)
     \<in> set (snd (handleJoinEvent sample_world event_address initial_ui)) \<and>
   wallet_publicKey sample_world = Some (sample_key 1) \<and>
   PublicKey_ctor event_address = Inr (sample_key 2)"
proof -
  have h: "findProgramAddressSync sample_world = findProgramAddressSync rejecting_world"
    "PROGRAM_ID sample_world = PROGRAM_ID rejecting_world"
    by (simp_all add: rejecting_world_def)
  have j: "JoinEventRpc (sample_key 1) (sample_key 2)
       (deriveTicketPda sample_world (sample_key 2) (sample_key 1)) (sample_key 7)
       (findProgramAddressSync sample_world [utf8 ''mint_auth'', sample_key 7] (sample_key 9))
       (sample_key 8)
     \<in> set (snd (handleJoinEvent sample_world event_address initial_ui))"
    unfolding sample_join_trace by simp
  show ?thesis
    using address_derivation_deterministic [of sample_world "sample_key 1" 1730000000000
        "sample_key 2" "sample_key 1" rejecting_world "sample_key 1" 1730000000000
        "sample_key 2" "sample_key 1" "sample_key 1" "sample_key 2"
        "deriveTicketPda sample_world (sample_key 2) (sample_key 1)" "sample_key 7"
        "findProgramAddressSync sample_world [utf8 ''mint_auth'', sample_key 7] (sample_key 9)"
        "sample_key 8" event_address initial_ui] h j
    by blast
qed

text \<open>
  Claim C9. Each of the five handlers returns at once when the program handle or the
  wallet's key is missing: it makes no call and leaves the client state, the status
  included, as it was.
\<close>

theorem handlers_silent_without_program_or_wallet:
  "\<not> program w \<or> wallet_publicKey w = None \<Longrightarrow>
     handleCreateEvent w priceSol title description ui = (ui, []) \<and>
     handleJoinEvent w eventPubkey ui = (ui, []) \<and>
     handleWithdraw w eventPubkey amountSol ui = (ui, []) \<and>
     handleCheckIn w ticket ev ui = (ui, []) \<and>
     handleOrganizerCheckInByAddress w ticketAddress ev ui = (ui, [])"
  by (auto simp: handleCreateEvent_def handleJoinEvent_def handleWithdraw_def
      handleCheckIn_def handleOrganizerCheckInByAddress_def split: option.splits)

theorem handlers_silent_without_program_or_wallet_witness:
  "\<not> program (sample_world\<lparr>program := False\<rparr>) \<and>
   handleCreateEvent (sample_world\<lparr>program := False\<rparr>) ''1.5'' ''title'' ''text'' initial_ui
     = (initial_ui, []) \<and>
   handleJoinEvent (sample_world\<lparr>program := False\<rparr>) event_address initial_ui
     = (initial_ui, []) \<and>
   handleWithdraw (sample_world\<lparr>program := False\<rparr>) event_address ''1.5'' initial_ui
     = (initial_ui, []) \<and>
   handleCheckIn (sample_world\<lparr>program := False\<rparr>) \<lparr>ticket_pubkey = sample_key 3\<rparr>
       sample_event initial_ui = (initial_ui, []) \<and>
   handleOrganizerCheckInByAddress (sample_world\<lparr>program := False\<rparr>) ticket_address
       sample_event initial_ui = (initial_ui, [])"
  using handlers_silent_without_program_or_wallet [of "sample_world\<lparr>program := False\<rparr>"
      "''1.5''" "''title''" "''text''" initial_ui event_address "''1.5''"
      "\<lparr>ticket_pubkey = sample_key 3\<rparr>" sample_event ticket_address]
  by simp

lemma extractor_warning_found:
  "extractTicketAddressFromInput s = Some x \<Longrightarrow> extractor_warning s = []"
  by (auto simp add: extractTicketAddressFromInput_def extractor_warning_def url_rule_def
      Let_def split: if_splits option.splits)

lemma extractor_warning_malformed:
  "extractor_warning ''https://''
   = [Console Warn ''[checkin] Failed to parse URL from scanned value'']"
  by code_simp

lemma checkin_invalid_key:
  assumes "program w" "wallet_publicKey w = Some signer" "organizer ev = signer"
    "extractTicketAddressFromInput s = Some x" "x \<noteq> []" "PublicKey_ctor x = Inl e"
  shows "handleOrganizerCheckInByAddress w s ev ui
         = (ui\<lparr>txStatus := Some (Status Cross ''Invalid ticket public key'')\<rparr>, [])"
  using assms by (simp add: handleOrganizerCheckInByAddress_def extractor_warning_found)

lemma checkin_different_event:
  assumes "program w" "wallet_publicKey w = Some signer" "organizer ev = signer"
    "extractTicketAddressFromInput s = Some x" "x \<noteq> []" "PublicKey_ctor x = Inr pk"
    "ticket_fetch w pk = Inr acc" "event acc \<noteq> pubkey ev"
  shows "handleOrganizerCheckInByAddress w s ev ui
         = (ui\<lparr>txStatus := Some (Status Cross ''This ticket belongs to a different event'')\<rparr>,
            [TicketFetch pk, Console Warn ''[checkin] Ticket belongs to different event''])"
  using assms by (simp add: handleOrganizerCheckInByAddress_def extractor_warning_found)

lemma checkin_already_checked_in:
  assumes "program w" "wallet_publicKey w = Some signer" "organizer ev = signer"
    "extractTicketAddressFromInput s = Some x" "x \<noteq> []" "PublicKey_ctor x = Inr pk"
    "ticket_fetch w pk = Inr acc" "event acc = pubkey ev" "checkedIn acc"
  shows "handleOrganizerCheckInByAddress w s ev ui
         = (ui\<lparr>txStatus := Some (Status Info ''This ticket is already checked in'')\<rparr>,
            [TicketFetch pk])"
  using assms by (simp add: handleOrganizerCheckInByAddress_def extractor_warning_found)

lemma checkin_all_checks_pass:
  assumes "program w" "wallet_publicKey w = Some signer" "organizer ev = signer"
    "extractTicketAddressFromInput s = Some x" "x \<noteq> []" "PublicKey_ctor x = Inr pk"
    "ticket_fetch w pk = Inr acc" "event acc = pubkey ev" "\<not> checkedIn acc"
  shows "filter is_submission (snd (handleOrganizerCheckInByAddress w s ev ui))
         = [CheckInRpc signer (pubkey ev) pk]"
  using assms
  by (simp add: handleOrganizerCheckInByAddress_def handleError_def Let_def is_submission_def
      extractor_warning_found split: sum.splits option.splits)

lemma checkin_submission_needs_all_checks:
  assumes "list_ex is_submission (snd (handleOrganizerCheckInByAddress w s ev ui))"
  shows "\<exists>signer x pk acc. program w \<and> wallet_publicKey w = Some signer \<and>
           organizer ev = signer \<and> extractTicketAddressFromInput s = Some x \<and> x \<noteq> [] \<and>
           PublicKey_ctor x = Inr pk \<and> ticket_fetch w pk = Inr acc \<and>
           event acc = pubkey ev \<and> \<not> checkedIn acc"
  using assms
  by (auto simp add: handleOrganizerCheckInByAddress_def handleError_def Let_def
      is_submission_def extractor_warning_def
      split: sum.splits option.splits if_splits)

text \<open>
  Claim C6, as amended. Let the program handle and the wallet's key be available, let the
  wallet be the organizer of the open event, and let the extractor find a non-empty value
  in the pasted input. If the value is no well-formed address, the status is "Invalid
  ticket public key" and no call is made. If it is one, the ticket is fetched; when the
  fetched ticket names another event the status is "This ticket belongs to a different
  event", and when it names the open event and is already checked in the status is the
  informational "This ticket is already checked in"; in both cases nothing is submitted.
  When the ticket names the open event and is not checked in, exactly one check-in
  invocation is submitted, for the wallet, the open event and the ticket. In every run,
  whatever the collaborators, a submission is made only when all these checks pass.
\<close>

theorem checkin_by_address_outcomes:
  "(program w \<and> wallet_publicKey w = Some signer \<and> organizer ev = signer \<and>
    extractTicketAddressFromInput s = Some x \<and> x \<noteq> [] \<longrightarrow>
      (PublicKey_ctor x = Inl e \<longrightarrow>
         handleOrganizerCheckInByAddress w s ev ui
           = (ui\<lparr>txStatus := Some (Status Cross ''Invalid ticket public key'')\<rparr>, [])) \<and>
      (PublicKey_ctor x = Inr pk \<and> ticket_fetch w pk = Inr acc \<longrightarrow>
         (event acc \<noteq> pubkey ev \<longrightarrow>
            handleOrganizerCheckInByAddress w s ev ui
              = (ui\<lparr>txStatus :=
                     Some (Status Cross ''This ticket belongs to a different event'')\<rparr>,
                 [TicketFetch pk,
                  Console Warn ''[checkin] Ticket belongs to different event''])) \<and>
         (event acc = pubkey ev \<and> checkedIn acc \<longrightarrow>
            handleOrganizerCheckInByAddress w s ev ui
              = (ui\<lparr>txStatus := Some (Status Info ''This ticket is already checked in'')\<rparr>,
                 [TicketFetch pk])) \<and>
         (event acc = pubkey ev \<and> \<not> checkedIn acc \<longrightarrow>
            filter is_submission (snd (handleOrganizerCheckInByAddress w s ev ui))
              = [CheckInRpc signer (pubkey ev) pk]))) \<and>
   (list_ex is_submission (snd (handleOrganizerCheckInByAddress w s ev ui)) \<longrightarrow>
      (\<exists>signer x pk acc. program w \<and> wallet_publicKey w = Some signer \<and>
         organizer ev = signer \<and> extractTicketAddressFromInput s = Some x \<and> x \<noteq> [] \<and>
         PublicKey_ctor x = Inr pk \<and> ticket_fetch w pk = Inr acc \<and>
         event acc = pubkey ev \<and> \<not> checkedIn acc))"
  using checkin_invalid_key [of w signer ev s x e ui]
    checkin_different_event [of w signer ev s x pk acc ui]
    checkin_already_checked_in [of w signer ev s x pk acc ui]
    checkin_all_checks_pass [of w signer ev s x pk acc ui]
    checkin_submission_needs_all_checks [of w s ev ui]
  by blast

lemma sample_events:
  "organizer sample_event = sample_key 1" "pubkey sample_event = sample_key 2"
  "organizer other_event = sample_key 1" "pubkey other_event = sample_key 4"
  by (simp_all add: sample_event_def other_event_def)

theorem checkin_by_address_outcomes_witness:
  "handleOrganizerCheckInByAddress sample_world ''not-a-valid-address'' sample_event initial_ui
     = (initial_ui\<lparr>txStatus := Some (Status Cross ''Invalid ticket public key'')\<rparr>, []) \<and>
   handleOrganizerCheckInByAddress sample_world ticket_address other_event initial_ui
     = (initial_ui\<lparr>txStatus :=
          Some (Status Cross ''This ticket belongs to a different event'')\<rparr>,
        [TicketFetch (sample_key 3),
         Console Warn ''[checkin] Ticket belongs to different event'']) \<and>
   handleOrganizerCheckInByAddress checked_in_world ticket_address sample_event initial_ui
     = (initial_ui\<lparr>txStatus := Some (Status Info ''This ticket is already checked in'')\<rparr>,
        [TicketFetch (sample_key 3)]) \<and>
   filter is_submission
     (snd (handleOrganizerCheckInByAddress sample_world ticket_address sample_event initial_ui))
     = [CheckInRpc (sample_key 1) (sample_key 2) (sample_key 3)] \<and>
   list_ex is_submission
     (snd (handleOrganizerCheckInByAddress sample_world ticket_address sample_event initial_ui)) \<and>
   ticket_fetch sample_world (sample_key 3) = Inr \<lparr>event = sample_key 2, checkedIn = False\<rparr>"
proof -
  have f: "ticket_fetch sample_world (sample_key 3)
           = Inr \<lparr>event = sample_key 2, checkedIn = False\<rparr>"
    by (simp add: sample_world_simps)
  have n: "''not-a-valid-address'' \<noteq> []"
    by simp
  note t = checkin_by_address_outcomes
  have 1: "handleOrganizerCheckInByAddress sample_world ''not-a-valid-address'' sample_event
             initial_ui
           = (initial_ui\<lparr>txStatus := Some (Status Cross ''Invalid ticket public key'')\<rparr>, [])"
    using t [of sample_world "sample_key 1" sample_event "''not-a-valid-address''"
        "''not-a-valid-address''" "Error ''Non-base58 character''" initial_ui]
      sample_world_simps(1,2) sample_events(1) sample_extract(1) sample_keys(4) n
    by blast
  have 2: "handleOrganizerCheckInByAddress sample_world ticket_address other_event initial_ui
     = (initial_ui\<lparr>txStatus :=
          Some (Status Cross ''This ticket belongs to a different event'')\<rparr>,
        [TicketFetch (sample_key 3),
         Console Warn ''[checkin] Ticket belongs to different event''])"
    using t [of sample_world "sample_key 1" other_event ticket_address ticket_address _
        initial_ui "sample_key 3" "\<lparr>event = sample_key 2, checkedIn = False\<rparr>"]
      sample_world_simps(1,2) sample_events(3,4) sample_extract(2) sample_keys(3)
      sample_addresses_nonempty(3) f
    by simp
  have 3: "handleOrganizerCheckInByAddress checked_in_world ticket_address sample_event
             initial_ui
     = (initial_ui\<lparr>txStatus := Some (Status Info ''This ticket is already checked in'')\<rparr>,
        [TicketFetch (sample_key 3)])"
    using t [of checked_in_world "sample_key 1" sample_event ticket_address ticket_address _
        initial_ui "sample_key 3" "\<lparr>event = sample_key 2, checkedIn = True\<rparr>"]
      variant_worlds(3,4,5) sample_events(1,2) sample_extract(2) sample_keys(3)
      sample_addresses_nonempty(3)
    by simp
  have 4: "filter is_submission
     (snd (handleOrganizerCheckInByAddress sample_world ticket_address sample_event initial_ui))
     = [CheckInRpc (sample_key 1) (sample_key 2) (sample_key 3)]"
    using t [of sample_world "sample_key 1" sample_event ticket_address ticket_address _
        initial_ui "sample_key 3" "\<lparr>event = sample_key 2, checkedIn = False\<rparr>"]
      sample_world_simps(1,2) sample_events(1,2) sample_extract(2) sample_keys(3)
      sample_addresses_nonempty(3) f
    by simp
  have 5: "list_ex is_submission
     (snd (handleOrganizerCheckInByAddress sample_world ticket_address sample_event initial_ui))"
    using 4 by (metis filter_empty_conv list_ex_iff not_Cons_self2)
  show ?thesis
    using 1 2 3 4 5 f by blast
qed

text \<open>
  The claim C6 as the spec states it gives the "Invalid ticket public key" status for
  every input whose extracted value is no well-formed address. The handler checks the
  organizer first: for a connected wallet that is not the organizer of the open event,
  the same input gives the organizer-only status.
\<close>

theorem checkin_guard_order_counterexample:
  "extractTicketAddressFromInput ''not-a-valid-address'' = Some ''not-a-valid-address'' \<and>
   PublicKey_ctor ''not-a-valid-address'' = Inl (Error ''Non-base58 character'') \<and>
   handleOrganizerCheckInByAddress stranger_world ''not-a-valid-address'' sample_event initial_ui
     = (initial_ui\<lparr>txStatus :=
          Some (Status Cross ''Only the event organizer can check in attendees'')\<rparr>, [])"
  by (simp add: handleOrganizerCheckInByAddress_def variant_worlds sample_extract sample_keys
      sample_event_def extractor_warning_found)

section \<open>Results on the deep link\<close>

lemma parse_url_captures:
  assumes "URL_ctor href = Some url" "searchParams_get url ''ticket'' = Some T1" "T1 \<noteq> []"
  shows "fst (effect_parse_url href ui) = ui\<lparr>deepLinkTicket := Some (trim T1), mainTab := Explore\<rparr>"
  using assms by (simp add: effect_parse_url_def)

lemma deep_link_load_resolved:
  assumes "URL_ctor href = Some url" "searchParams_get url ''ticket'' = Some T1" "T1 \<noteq> []"
    "program w" "PublicKey_ctor (trim T1) = Inr tpk" "ticket_fetch w tpk = Inr acc"
  shows "deep_link_load href w
         = initial_ui\<lparr>deepLinkTicket := Some (trim T1), mainTab := Explore,
                        deepLinkEventPubkey := Some (event acc)\<rparr>"
proof -
  have "trim T1 \<noteq> []"
    using assms(5) PublicKey_ctor_empty by auto
  then show ?thesis
    using assms
    by (simp add: deep_link_load_def parse_url_captures effect_fetch_ticket_def)
qed

lemma select_match:
  assumes "deepLinkEventPubkey ui = Some pk" "find (\<lambda>ev. pubkey ev = pk) (events w) = Some m"
  shows "effect_select_event w ui = (ui\<lparr>selectedEvent := Some m, mainTab := Explore\<rparr>, [])"
proof -
  have "events w \<noteq> []" using assms(2) by auto
  then show ?thesis using assms by (simp add: effect_select_event_def)
qed

lemma select_no_match:
  assumes "deepLinkEventPubkey ui = Some pk" "events w \<noteq> []"
    "find (\<lambda>ev. pubkey ev = pk) (events w) = None"
  shows "effect_select_event w ui
         = (ui, [Console Warn ''[checkin] Deep-linked ticket's event not found in loaded events''])"
  using assms by (simp add: effect_select_event_def)

lemma select_unloaded: "events w = [] \<Longrightarrow> effect_select_event w ui = (ui, [])"
  by (simp add: effect_select_event_def split: option.splits)

lemma find_member:
  assumes "x \<in> set xs" "P x"
  shows "\<exists>m. find P xs = Some m \<and> P m \<and> m \<in> set xs"
  using assms by (induction xs) auto

text \<open>
  Claim C7. Let the page address parse to a URL whose ticket parameter is \<open>T1\<close>, let the
  program handle be available and let the fetch of the ticket at \<open>T1\<close> return a record of
  the event \<open>E1\<close>. Then the page load resolves the parent to \<open>E1\<close>. When the events
  collection is empty at first and later contains an event with the address \<open>E1\<close>, the
  selection is that event. When the collection holds events but none with the address
  \<open>E1\<close>, the selection effect changes nothing and only logs a warning: the selection and
  the status stay empty.
\<close>

theorem deep_link_resolution:
  assumes "URL_ctor href = Some url" and "searchParams_get url ''ticket'' = Some T1"
    and "T1 \<noteq> []" and "program w" and "PublicKey_ctor (trim T1) = Inr tpk"
    and "ticket_fetch w tpk = Inr acc" and "event acc = E1"
  shows "deepLinkEventPubkey (deep_link_load href w) = Some E1 \<and>
    (events w0 = [] \<and> ev \<in> set (events w1) \<and> pubkey ev = E1 \<longrightarrow>
       (\<exists>m. selectedEvent (select_runs [w0, w1] (deep_link_load href w)) = Some m \<and>
            find (\<lambda>ev. pubkey ev = E1) (events w1) = Some m \<and>
            pubkey m = E1 \<and> m \<in> set (events w1))) \<and>
    (events w0 = [] \<and> events w1 \<noteq> [] \<and>
     find (\<lambda>ev. pubkey ev = E1) (events w1) = None \<longrightarrow>
       effect_select_event w1 (deep_link_load href w)
         = (deep_link_load href w,
            [Console Warn ''[checkin] Deep-linked ticket's event not found in loaded events'']) \<and>
       selectedEvent (select_runs [w0, w1] (deep_link_load href w)) = None \<and>
       txStatus (select_runs [w0, w1] (deep_link_load href w)) = None)"
proof -
  let ?st = "deep_link_load href w"
  have st: "?st = initial_ui\<lparr>deepLinkTicket := Some (trim T1), mainTab := Explore,
                               deepLinkEventPubkey := Some E1\<rparr>"
    using deep_link_load_resolved [OF assms(1-6)] assms(7) by simp
  then have parent: "deepLinkEventPubkey ?st = Some E1"
    by simp
  have empty: "selectedEvent ?st = None" "txStatus ?st = None"
    by (simp_all add: st initial_ui_def)
  have found: "\<exists>m. selectedEvent (select_runs [w0, w1] ?st) = Some m \<and>
                   find (\<lambda>ev. pubkey ev = E1) (events w1) = Some m \<and>
                   pubkey m = E1 \<and> m \<in> set (events w1)"
    if un: "events w0 = []" and mem: "ev \<in> set (events w1)" and pk: "pubkey ev = E1"
  proof -
    obtain m where m: "find (\<lambda>ev. pubkey ev = E1) (events w1) = Some m" "pubkey m = E1"
      "m \<in> set (events w1)"
      using find_member [of ev "events w1" "\<lambda>ev. pubkey ev = E1"] mem pk by blast
    have "select_runs [w0, w1] ?st = ?st\<lparr>selectedEvent := Some m, mainTab := Explore\<rparr>"
      by (simp add: select_unloaded [OF un] select_match [OF parent m(1)])
    then show ?thesis using m by simp
  qed
  have missing: "effect_select_event w1 ?st
         = (?st, [Console Warn ''[checkin] Deep-linked ticket's event not found in loaded events''])
       \<and> selectedEvent (select_runs [w0, w1] ?st) = None
       \<and> txStatus (select_runs [w0, w1] ?st) = None"
    if un: "events w0 = []" and ne: "events w1 \<noteq> []"
      and nf: "find (\<lambda>ev. pubkey ev = E1) (events w1) = None"
  proof -
    have 1: "effect_select_event w1 ?st
         = (?st, [Console Warn ''[checkin] Deep-linked ticket's event not found in loaded events''])"
      by (rule select_no_match [OF parent ne nf])
    have "select_runs [w0, w1] ?st = ?st"
      by (simp add: select_unloaded [OF un] 1)
    then show ?thesis
      using 1 empty by simp
  qed
  show ?thesis
    using parent found missing by blast
qed

theorem deep_link_resolution_witness:
  "URL_ctor sample_href
     = Some \<lparr>url_host = ''host'', url_port = [],
              url_query = ''ticket=11111111111111111111111111111114''\<rparr> \<and>
   deepLinkEventPubkey (deep_link_load sample_href sample_world) = Some (sample_key 2) \<and>
   selectedEvent (select_runs [unloaded_world, sample_world]
                    (deep_link_load sample_href sample_world)) = Some sample_event \<and>
   selectedEvent (select_runs [unloaded_world, other_world]
                    (deep_link_load sample_href sample_world)) = None \<and>
   txStatus (select_runs [unloaded_world, other_world]
               (deep_link_load sample_href sample_world)) = None \<and>
   effect_select_event other_world (deep_link_load sample_href sample_world)
     = (deep_link_load sample_href sample_world,
        [Console Warn ''[checkin] Deep-linked ticket's event not found in loaded events''])"
proof -
  have f: "ticket_fetch sample_world (sample_key 3)
           = Inr \<lparr>event = sample_key 2, checkedIn = False\<rparr>"
    by (simp add: sample_world_simps)
  have k: "PublicKey_ctor (trim ticket_address) = Inr (sample_key 3)"
    by (simp only: sample_extract(5) sample_keys(3))
  have e: "event \<lparr>event = sample_key 2, checkedIn = False\<rparr> = sample_key 2"
    by simp
  note t = deep_link_resolution [OF sample_extract(3) sample_extract(4)
      sample_addresses_nonempty(3) sample_world_simps(1) k f e]
  have hit: "events unloaded_world = []" "sample_event \<in> set (events sample_world)"
    "pubkey sample_event = sample_key 2"
    "find (\<lambda>ev. pubkey ev = sample_key 2) (events sample_world) = Some sample_event"
    by (simp_all add: variant_worlds sample_world_simps sample_events)
  have miss: "events other_world \<noteq> []"
    "find (\<lambda>ev. pubkey ev = sample_key 2) (events other_world) = None"
    by (simp_all add: variant_worlds sample_events)
  have 1: "selectedEvent (select_runs [unloaded_world, sample_world]
                    (deep_link_load sample_href sample_world)) = Some sample_event"
    using t [of unloaded_world sample_event sample_world] hit by auto
  have 2: "effect_select_event other_world (deep_link_load sample_href sample_world)
     = (deep_link_load sample_href sample_world,
        [Console Warn ''[checkin] Deep-linked ticket's event not found in loaded events''])
     \<and> selectedEvent (select_runs [unloaded_world, other_world]
                    (deep_link_load sample_href sample_world)) = None
     \<and> txStatus (select_runs [unloaded_world, other_world]
               (deep_link_load sample_href sample_world)) = None"
    using t [of unloaded_world sample_event other_world] hit(1) miss by blast
  show ?thesis
    using t [of unloaded_world sample_event sample_world] 1 2 sample_extract(3) by blast
qed

lemma fetch_keeps:
  "deepLinkTicket (fst (effect_fetch_ticket w ui)) = deepLinkTicket ui"
  "selectedEvent (fst (effect_fetch_ticket w ui)) = selectedEvent ui"
  by (simp_all add: effect_fetch_ticket_def Let_def split: option.splits sum.splits)

lemma select_keeps:
  "deepLinkTicket (fst (effect_select_event w ui)) = deepLinkTicket ui"
  "deepLinkEventPubkey (fst (effect_select_event w ui)) = deepLinkEventPubkey ui"
  "txStatus (fst (effect_select_event w ui)) = txStatus ui"
  by (simp_all add: effect_select_event_def split: option.splits)

lemma select_never_unselects:
  "selectedEvent ui = Some m \<Longrightarrow> \<exists>m'. selectedEvent (fst (effect_select_event w ui)) = Some m'"
  by (simp add: effect_select_event_def split: option.splits)

lemma select_unchanged_without_match:
  "find (\<lambda>ev. pubkey ev = pk) (events w) = None \<Longrightarrow> deepLinkEventPubkey ui = Some pk \<Longrightarrow>
     fst (effect_select_event w ui) = ui"
  by (simp add: effect_select_event_def)

lemma fetch_success:
  assumes "deepLinkTicket ui = Some t" "program w" "PublicKey_ctor t = Inr tpk"
    "ticket_fetch w tpk = Inr acc"
  shows "deepLinkEventPubkey (fst (effect_fetch_ticket w ui)) = Some (event acc)"
proof -
  have "t \<noteq> []" using assms(3) PublicKey_ctor_empty by auto
  then show ?thesis using assms by (simp add: effect_fetch_ticket_def)
qed

text \<open>
  Claim C8, as amended. The stages that re-run never clear the captured ticket nor a
  selection: the ticket fetch leaves both as they are, and the selection effect leaves
  the captured ticket, the resolved parent and the status as they are, keeps a selection
  once there is one, and changes nothing at all when the refreshed collection holds no
  event with the resolved parent's address. A ticket fetch that succeeds sets the
  resolved parent to the ticket's event.
\<close>

theorem deep_link_stages_keep_selection:
  "deepLinkTicket (fst (effect_fetch_ticket w ui)) = deepLinkTicket ui \<and>
   selectedEvent (fst (effect_fetch_ticket w ui)) = selectedEvent ui \<and>
   deepLinkTicket (fst (effect_select_event w ui)) = deepLinkTicket ui \<and>
   deepLinkEventPubkey (fst (effect_select_event w ui)) = deepLinkEventPubkey ui \<and>
   txStatus (fst (effect_select_event w ui)) = txStatus ui \<and>
   (selectedEvent ui = Some m \<longrightarrow>
      (\<exists>m'. selectedEvent (fst (effect_select_event w ui)) = Some m')) \<and>
   (deepLinkEventPubkey ui = Some pk \<and> find (\<lambda>ev. pubkey ev = pk) (events w) = None \<longrightarrow>
      fst (effect_select_event w ui) = ui) \<and>
   (deepLinkTicket ui = Some t \<and> program w \<and> PublicKey_ctor t = Inr tpk \<and>
    ticket_fetch w tpk = Inr acc \<longrightarrow>
      deepLinkEventPubkey (fst (effect_fetch_ticket w ui)) = Some (event acc))"
  using fetch_keeps [of w ui] select_keeps [of w ui] select_never_unselects [of ui m w]
    select_unchanged_without_match [of pk w ui] fetch_success [of ui t w tpk acc]
  by blast

lemma sample_resolved:
  "deep_link_load sample_href sample_world
   = initial_ui\<lparr>deepLinkTicket := Some ticket_address, mainTab := Explore,
                  deepLinkEventPubkey := Some (sample_key 2)\<rparr>"
proof -
  have "PublicKey_ctor (trim ticket_address) = Inr (sample_key 3)"
    by (simp only: sample_extract(5) sample_keys(3))
  from deep_link_load_resolved [OF sample_extract(3) sample_extract(4)
      sample_addresses_nonempty(3) sample_world_simps(1) this, of
      "\<lparr>event = sample_key 2, checkedIn = False\<rparr>"]
  show ?thesis
    by (simp add: sample_world_simps sample_extract(5))
qed

lemma sample_selected:
  "select_runs [unloaded_world, sample_world] (deep_link_load sample_href sample_world)
   = initial_ui\<lparr>deepLinkTicket := Some ticket_address, mainTab := Explore,
                  deepLinkEventPubkey := Some (sample_key 2),
                  selectedEvent := Some sample_event\<rparr>"
  by (simp add: sample_resolved effect_select_event_def variant_worlds sample_world_simps
      sample_events)

theorem deep_link_stages_keep_selection_witness:
  "selectedEvent (select_runs [unloaded_world, sample_world]
                    (deep_link_load sample_href sample_world)) = Some sample_event \<and>
   deepLinkEventPubkey (select_runs [unloaded_world, sample_world]
                          (deep_link_load sample_href sample_world)) = Some (sample_key 2) \<and>
   find (\<lambda>ev. pubkey ev = sample_key 2) (events other_world) = None \<and>
   fst (effect_select_event other_world
          (select_runs [unloaded_world, sample_world] (deep_link_load sample_href sample_world)))
     = select_runs [unloaded_world, sample_world] (deep_link_load sample_href sample_world) \<and>
   deepLinkTicket (deep_link_load sample_href sample_world) = Some ticket_address \<and>
   program sample_world \<and>
   PublicKey_ctor ticket_address = Inr (sample_key 3) \<and>
   deepLinkEventPubkey (fst (effect_fetch_ticket sample_world
                               (deep_link_load sample_href sample_world)))
     = Some (sample_key 2)"
proof -
  let ?sel = "select_runs [unloaded_world, sample_world] (deep_link_load sample_href sample_world)"
  have s: "selectedEvent ?sel = Some sample_event"
    "deepLinkEventPubkey ?sel = Some (sample_key 2)"
    unfolding sample_selected by simp_all
  have n: "find (\<lambda>ev. pubkey ev = sample_key 2) (events other_world) = None"
    by (simp add: variant_worlds sample_events)
  have d: "deepLinkTicket (deep_link_load sample_href sample_world) = Some ticket_address"
    by (simp add: sample_resolved)
  have f: "ticket_fetch sample_world (sample_key 3)
           = Inr \<lparr>event = sample_key 2, checkedIn = False\<rparr>"
    by (simp add: sample_world_simps)
  have 1: "fst (effect_select_event other_world ?sel) = ?sel"
    using deep_link_stages_keep_selection [of other_world ?sel sample_event "sample_key 2"]
      s n by blast
  have 2: "deepLinkEventPubkey (fst (effect_fetch_ticket sample_world
                               (deep_link_load sample_href sample_world)))
     = Some (sample_key 2)"
    using deep_link_stages_keep_selection [of sample_world
        "deep_link_load sample_href sample_world" _ _ ticket_address "sample_key 3"
        "\<lparr>event = sample_key 2, checkedIn = False\<rparr>"]
      d sample_world_simps(1) sample_keys(3) f
    by simp
  show ?thesis
    using s n 1 d sample_world_simps(1) sample_keys(3) 2 by blast
qed

text \<open>
  The claim C8 as the spec states it says that no state already reached is reverted.
  After the sample page load has resolved the parent, a re-run of the ticket fetch that
  fails resets the resolved parent to \<^verbatim>\<open>null\<close> and sets the error status.
\<close>

theorem deep_link_parent_reset_counterexample:
  "deepLinkEventPubkey (deep_link_load sample_href sample_world) = Some (sample_key 2) \<and>
   deepLinkEventPubkey
     (fst (effect_fetch_ticket failing_world (deep_link_load sample_href sample_world))) = None \<and>
   txStatus
     (fst (effect_fetch_ticket failing_world (deep_link_load sample_href sample_world)))
     = Some (Status Cross ''Invalid or unknown ticket in check-in link'')"
  by (simp add: sample_resolved effect_fetch_ticket_def variant_worlds sample_keys
      sample_addresses_nonempty)

end
